theory Spec2Isabelle
  imports Complex_Main
begin

section \<open>Tensors\<close>

text \<open>
  A tensor element. Finite floats are idealised as reals; \<open>NaN\<close> is kept as a value of
  its own because the actors are checked for what they do with it. Infinities are not
  represented.
\<close>

datatype scalar = Fl real | NaN | In int | Bo bool

text \<open>A tensor as torch stores it: a shape and the elements in row-major order.\<close>

record 'a tensor =
  shape :: "nat list"
  data :: "'a list"

datatype error =
    MissingEntry
  | SkipAhead
  | ShapeMismatch
  | AssertionError string
  | ValueError
  | IndexError
  | TypeError

definition bind_e :: "error + 'a \<Rightarrow> ('a \<Rightarrow> error + 'b) \<Rightarrow> error + 'b" where
  "bind_e r f = (case r of Inl e \<Rightarrow> Inl e | Inr x \<Rightarrow> f x)"

definition wf_tensor :: "'a tensor \<Rightarrow> bool" where
  "wf_tensor x = (length (data x) = prod_list (shape x))"

definition tmap :: "('a \<Rightarrow> 'b) \<Rightarrow> 'a tensor \<Rightarrow> 'b tensor" where
  "tmap f x = \<lparr>shape = shape x, data = map f (data x)\<rparr>"

fun to_real :: "scalar \<Rightarrow> real option" where
  "to_real (Fl x) = Some x"
| "to_real NaN = None"
| "to_real (In i) = Some (of_int i)"
| "to_real (Bo b) = Some (if b then 1 else 0)"

fun isnan_s :: "scalar \<Rightarrow> bool" where
  "isnan_s NaN = True"
| "isnan_s _ = False"

text \<open>\<open>x.lt(c)\<close>: a comparison with NaN is false.\<close>

definition lt_s :: "scalar \<Rightarrow> real \<Rightarrow> bool" where
  "lt_s x c = (case to_real x of None \<Rightarrow> False | Some v \<Rightarrow> v < c)"

definition lt_t :: "scalar tensor \<Rightarrow> real \<Rightarrow> scalar tensor" where
  "lt_t x c = tmap (\<lambda>v. Bo (lt_s v c)) x"

text \<open>\<open>x.float()\<close>.\<close>

definition float_s :: "scalar \<Rightarrow> scalar" where
  "float_s x = (case to_real x of None \<Rightarrow> NaN | Some v \<Rightarrow> Fl v)"

definition float_t :: "scalar tensor \<Rightarrow> scalar tensor" where
  "float_t x = tmap float_s x"

text \<open>
  \<open>x.int()\<close>: truncation towards zero. torch leaves the conversion of NaN unspecified;
  it is kept as NaN here.
\<close>

fun int_s :: "scalar \<Rightarrow> scalar" where
  "int_s (Fl x) = In (if 0 \<le> x then \<lfloor>x\<rfloor> else \<lceil>x\<rceil>)"
| "int_s NaN = NaN"
| "int_s (In i) = In i"
| "int_s (Bo b) = In (if b then 1 else 0)"

definition int_t :: "scalar tensor \<Rightarrow> scalar tensor" where
  "int_t x = tmap int_s x"

text \<open>\<open>x.squeeze(-1)\<close>: the last axis is dropped when its size is 1.\<close>

definition squeeze_last :: "'a tensor \<Rightarrow> 'a tensor" where
  "squeeze_last x =
     (if shape x \<noteq> [] \<and> last (shape x) = 1 then x\<lparr>shape := butlast (shape x)\<rparr> else x)"

text \<open>The rows along the last axis, in order.\<close>

definition rows :: "'a tensor \<Rightarrow> 'a list list" where
  "rows x =
     (let n = last (shape x)
      in map (\<lambda>i. take n (drop (i * n) (data x))) [0..<prod_list (butlast (shape x))])"

definition add_s :: "scalar \<Rightarrow> scalar \<Rightarrow> scalar" where
  "add_s a b =
     (case (to_real a, to_real b) of (Some x, Some y) \<Rightarrow> Fl (x + y) | _ \<Rightarrow> NaN)"

definition sum_s :: "scalar list \<Rightarrow> scalar" where
  "sum_s xs = foldl add_s (Fl 0) xs"

text \<open>\<open>x.sum(axis=-1)\<close> on a float tensor; a 0-dimensional tensor is returned as it is.\<close>

definition sum_last :: "scalar tensor \<Rightarrow> scalar tensor" where
  "sum_last x =
     (if shape x = [] then x
      else \<lparr>shape = butlast (shape x), data = map sum_s (rows x)\<rparr>)"

text \<open>\<open>torch.any(torch.isnan(x))\<close>.\<close>

definition any_isnan :: "scalar tensor \<Rightarrow> bool" where
  "any_isnan x = list_ex isnan_s (data x)"

text \<open>
  \<open>torch.softmax(x, dim=-1)\<close> over the reals: a row that holds a NaN is NaN throughout.
\<close>

definition softmax_row :: "scalar list \<Rightarrow> scalar list" where
  "softmax_row xs =
     (if list_ex (\<lambda>x. to_real x = None) xs then map (\<lambda>_. NaN) xs
      else (let es = map (\<lambda>x. exp (the (to_real x))) xs
            in map (\<lambda>e. Fl (e / sum_list es)) es))"

definition softmax :: "scalar tensor \<Rightarrow> scalar tensor" where
  "softmax x = \<lparr>shape = shape x, data = concat (map softmax_row (rows x))\<rparr>"

text \<open>
  \<open>x.log()\<close>. The actors apply it to softmax outputs only, which are positive or NaN;
  a negative argument gives NaN as in torch, and the infinity at 0 is not represented.
\<close>

definition log_s :: "scalar \<Rightarrow> scalar" where
  "log_s x = (case to_real x of None \<Rightarrow> NaN | Some v \<Rightarrow> if v < 0 then NaN else Fl (ln v))"

definition log_t :: "scalar tensor \<Rightarrow> scalar tensor" where
  "log_t x = tmap log_s x"

text \<open>
  The position of the first greatest element of a row; NaN counts as greater than every
  number, as in \<open>torch.argmax\<close>.
\<close>

definition gt_s :: "scalar \<Rightarrow> scalar \<Rightarrow> bool" where
  "gt_s a b =
     (case (to_real a, to_real b) of
        (None, None) \<Rightarrow> False
      | (None, Some y) \<Rightarrow> True
      | (Some x, None) \<Rightarrow> False
      | (Some x, Some y) \<Rightarrow> y < x)"

fun argmax_from :: "nat \<Rightarrow> scalar \<Rightarrow> nat \<Rightarrow> scalar list \<Rightarrow> nat" where
  "argmax_from best bv i [] = best"
| "argmax_from best bv i (x # xs) =
     (if gt_s x bv then argmax_from i x (Suc i) xs else argmax_from best bv (Suc i) xs)"

definition argmax_row :: "scalar list \<Rightarrow> nat" where
  "argmax_row xs = (case xs of [] \<Rightarrow> 0 | x # ys \<Rightarrow> argmax_from 0 x 1 ys)"

text \<open>
  \<open>x.argmax(1)\<close> on a two-dimensional tensor \<open>[B, A]\<close>: one index for each row. Another
  rank, or rows without elements, raise.
\<close>

definition argmax1 :: "scalar tensor \<Rightarrow> error + scalar tensor" where
  "argmax1 x =
     (case shape x of
        [b, a] \<Rightarrow>
          if a = 0 then Inl IndexError
          else Inr \<lparr>shape = [b], data = map (\<lambda>r. In (int (argmax_row r))) (rows x)\<rparr>
      | _ \<Rightarrow> Inl IndexError)"

text \<open>
  Two tensors combined element by element under torch's broadcasting rule: shapes are
  aligned at the last axis, and an axis of size 1 is repeated.
\<close>

fun bshape_rev :: "nat list \<Rightarrow> nat list \<Rightarrow> nat list option" where
  "bshape_rev [] ys = Some ys"
| "bshape_rev xs [] = Some xs"
| "bshape_rev (x # xs) (y # ys) =
     (if x = y \<or> x = 1 \<or> y = 1
      then map_option (\<lambda>zs. (if x = 1 then y else x) # zs) (bshape_rev xs ys)
      else None)"

definition broadcast_shapes :: "nat list \<Rightarrow> nat list \<Rightarrow> nat list option" where
  "broadcast_shapes a b = map_option rev (bshape_rev (rev a) (rev b))"

fun unravel_rev :: "nat list \<Rightarrow> nat \<Rightarrow> nat list" where
  "unravel_rev [] k = []"
| "unravel_rev (d # ds) k = (k mod d) # unravel_rev ds (k div d)"

fun ravel_rev :: "nat list \<Rightarrow> nat list \<Rightarrow> nat" where
  "ravel_rev (d # ds) (i # js) = (if d = 1 then 0 else i) + d * ravel_rev ds js"
| "ravel_rev _ _ = 0"

definition expand :: "'a tensor \<Rightarrow> nat list \<Rightarrow> 'a list" where
  "expand x s =
     map (\<lambda>k. data x ! ravel_rev (rev (shape x)) (unravel_rev (rev s) k)) [0..<prod_list s]"

definition binop :: "('a \<Rightarrow> 'b \<Rightarrow> 'c) \<Rightarrow> 'a tensor \<Rightarrow> 'b tensor \<Rightarrow> error + 'c tensor" where
  "binop f a b =
     (if shape a = shape b then Inr \<lparr>shape = shape a, data = map2 f (data a) (data b)\<rparr>
      else case broadcast_shapes (shape a) (shape b) of
             None \<Rightarrow> Inl ShapeMismatch
           | Some s \<Rightarrow> Inr \<lparr>shape = s, data = map2 f (expand a s) (expand b s)\<rparr>)"

text \<open>
  \<open>probs[torch.arange(probs.size()[0]), action]\<close>: advanced indexing with two index
  tensors, \<open>arange(B)\<close> on the first axis and \<open>action\<close> on the second. torch broadcasts
  the two index tensors against each other and returns, at each position of the broadcast
  shape, \<open>probs[i, j]\<close> for the pair of indices there (a slice, when \<open>probs\<close> has further
  axes): for \<open>action\<close> of shape \<open>[B]\<close> the element of row \<open>i\<close> at column \<open>action[i]\<close>, for
  \<open>action\<close> of shape \<open>[B, 1]\<close> a table of shape \<open>[B, B]\<close> whose entry \<open>[i, j]\<close> is
  \<open>probs[j, action[i, 0]]\<close>. Negative indices count from the end. A boolean \<open>action\<close> is
  a mask on the axes after the first, whose shape it must have: it stands for the
  positions where it is true. An index out of range, a float index, index tensors that do
  not broadcast, a mask of another shape and \<open>probs\<close> without a second axis raise
  IndexError.
\<close>

fun long_of :: "scalar \<Rightarrow> int option" where
  "long_of (In i) = Some i"
| "long_of _ = None"

fun bool_of :: "scalar \<Rightarrow> bool option" where
  "bool_of (Bo b) = Some b"
| "bool_of _ = None"

definition nonzero :: "bool list \<Rightarrow> int list" where
  "nonzero bs = map int (filter (\<lambda>k. bs ! k) [0..<length bs])"

text \<open>
  The second index as torch normalises it: the size of what it indexes, the axes of
  \<open>probs\<close> left over, and the tensor of integer indices.
\<close>

definition column_index :: "nat list \<Rightarrow> scalar tensor \<Rightarrow> (nat \<times> nat list \<times> int tensor) option" where
  "column_index dims action =
     (case those (map long_of (data action)) of
        Some js \<Rightarrow>
          (case dims of
             [] \<Rightarrow> None
           | a # rest \<Rightarrow> Some (a, rest, \<lparr>shape = shape action, data = js\<rparr>))
      | None \<Rightarrow>
          (case those (map bool_of (data action)) of
             Some bs \<Rightarrow>
               if take (length (shape action)) dims = shape action
               then Some (prod_list (shape action), drop (length (shape action)) dims,
                          \<lparr>shape = [length (nonzero bs)], data = nonzero bs\<rparr>)
               else None
           | None \<Rightarrow> None))"

definition index_of :: "nat \<Rightarrow> int \<Rightarrow> error + nat" where
  "index_of a i =
     (let j = (if i < 0 then int a + i else i)
      in if 0 \<le> j \<and> j < int a then Inr (nat j) else Inl IndexError)"

fun collect :: "(error + 'a) list \<Rightarrow> error + 'a list" where
  "collect [] = Inr []"
| "collect (x # xs) = bind_e x (\<lambda>y. bind_e (collect xs) (\<lambda>ys. Inr (y # ys)))"

definition index_rows :: "scalar tensor \<Rightarrow> scalar tensor \<Rightarrow> error + scalar tensor" where
  "index_rows probs action =
     (case shape probs of
        [] \<Rightarrow> Inl IndexError
      | b # dims \<Rightarrow>
          (case column_index dims action of
             None \<Rightarrow> Inl IndexError
           | Some (a, rest, cols) \<Rightarrow>
               (case binop Pair \<lparr>shape = [b], data = [0..<b]\<rparr> cols of
                  Inl e \<Rightarrow> Inl IndexError
                | Inr ix \<Rightarrow>
                    bind_e (collect (map (\<lambda>(i, c). bind_e (index_of a c) (\<lambda>j.
                               Inr (take (prod_list rest)
                                      (drop ((i * a + j) * prod_list rest) (data probs)))))
                             (data ix)))
                      (\<lambda>blocks. Inr \<lparr>shape = shape ix @ rest, data = concat blocks\<rparr>))))"

section \<open>The workspace\<close>

text \<open>
  Modelled from the spec: the Workspace class of the bbrl library, which the repository
  imports and does not hold. A workspace maps a channel name to the sequence of tensors
  written for time steps \<open>0, 1, ...\<close>; a channel never written is the empty sequence.
  \<open>get\<close> fails with a missing entry at an unset time; \<open>set\<close> fails when the time skips
  ahead of the channel's length or when the shape differs from an entry already written.
\<close>

type_synonym workspace = "string \<Rightarrow> scalar tensor list"

definition empty_ws :: workspace where
  "empty_ws = (\<lambda>c. [])"

definition get_ws :: "workspace \<Rightarrow> string \<Rightarrow> nat \<Rightarrow> error + scalar tensor" where
  "get_ws w c t = (if t < length (w c) then Inr (w c ! t) else Inl MissingEntry)"

definition set_ws :: "workspace \<Rightarrow> string \<Rightarrow> nat \<Rightarrow> scalar tensor \<Rightarrow> error + workspace" where
  "set_ws w c t v =
     (if length (w c) < t then Inl SkipAhead
      else if list_ex (\<lambda>e. shape e \<noteq> shape v) (w c) then Inl ShapeMismatch
      else Inr (w(c := (if t = length (w c) then w c @ [v] else (w c)[t := v]))))"

text \<open>
  Modelled from the spec: \<open>copy_n_last_steps(n)\<close> keeps the last \<open>n\<close> time steps of every
  channel, re-indexed from 0.
\<close>

definition copy_n_last_steps :: "nat \<Rightarrow> workspace \<Rightarrow> workspace" where
  "copy_n_last_steps n w = (\<lambda>c. drop (length (w c) - n) (w c))"

section \<open>Agents\<close>

text \<open>
  An agent runs on the workspace and on the state of the random number generator. A raise
  keeps the state reached so far: what was written before the raise stays written.
\<close>

type_synonym 'r state = "workspace \<times> 'r"

type_synonym ('a, 'r) agent_m = "'r state \<Rightarrow> (error + 'a) \<times> 'r state"

definition return_m :: "'a \<Rightarrow> ('a, 'r) agent_m" where
  "return_m x = (\<lambda>s. (Inr x, s))"

definition raise_m :: "error \<Rightarrow> ('a, 'r) agent_m" where
  "raise_m e = (\<lambda>s. (Inl e, s))"

definition bind_m :: "('a, 'r) agent_m \<Rightarrow> ('a \<Rightarrow> ('b, 'r) agent_m) \<Rightarrow> ('b, 'r) agent_m" where
  "bind_m m f = (\<lambda>s. case m s of (Inl e, s') \<Rightarrow> (Inl e, s') | (Inr x, s') \<Rightarrow> f x s')"

definition lift_e :: "error + 'a \<Rightarrow> ('a, 'r) agent_m" where
  "lift_e r = (\<lambda>s. (r, s))"

text \<open>\<open>self.get((c, t))\<close> and \<open>self.set((c, t), v)\<close> of the Agent base class.\<close>

definition self_get :: "string \<Rightarrow> nat \<Rightarrow> (scalar tensor, 'r) agent_m" where
  "self_get c t = (\<lambda>s. (get_ws (fst s) c t, s))"

definition self_set :: "string \<Rightarrow> nat \<Rightarrow> scalar tensor \<Rightarrow> (unit, 'r) agent_m" where
  "self_set c t v =
     (\<lambda>s. case set_ws (fst s) c t v of
             Inl e \<Rightarrow> (Inl e, s)
           | Inr w' \<Rightarrow> (Inr (), (w', snd s)))"

text \<open>
  The keyword arguments the temporal agent threads to every \<open>forward\<close>; \<open>None\<close> is a
  keyword that was not passed, and each \<open>forward\<close> applies its own default.
\<close>

record kwargs =
  kw_stochastic :: "bool option"
  kw_predict_proba :: "bool option"
  kw_compute_entropy :: "bool option"
  kw_observation :: "scalar tensor option"

definition kw_default :: "'a \<Rightarrow> 'a option \<Rightarrow> 'a" where
  "kw_default d x = (case x of None \<Rightarrow> d | Some v \<Rightarrow> v)"

section \<open>The distributions of torch\<close>

datatype dist =
    Categorical "scalar tensor"
  | Bernoulli "scalar tensor"
  | Normal "scalar tensor" "scalar tensor"
  | Independent dist nat
  | SquashedDiagGaussian "scalar tensor" "scalar tensor"

text \<open>
  The distribution classes belong to torch and bbrl, not to the repository: their methods
  are parameters of the model. \<open>valid_args\<close> is the check the constructor makes (it raises
  ValueError when argument validation is on and fails), \<open>sample\<close> draws from the generator
  state and returns the new one, \<open>log_prob\<close> raises when shapes do not broadcast, \<open>mode\<close>
  and \<open>mean_of\<close> are the \<open>mode()\<close> method and the \<open>mean\<close> property.
\<close>

record 'r torch =
  valid_args :: "dist \<Rightarrow> bool"
  entropy :: "dist \<Rightarrow> scalar tensor"
  log_prob :: "dist \<Rightarrow> scalar tensor \<Rightarrow> error + scalar tensor"
  sample :: "dist \<Rightarrow> 'r \<Rightarrow> scalar tensor \<times> 'r"
  mode :: "dist \<Rightarrow> scalar tensor"
  mean_of :: "dist \<Rightarrow> scalar tensor"

definition construct :: "'r torch \<Rightarrow> dist \<Rightarrow> (dist, 'r) agent_m" where
  "construct T d = (if valid_args T d then return_m d else raise_m ValueError)"

definition sample_m :: "'r torch \<Rightarrow> dist \<Rightarrow> (scalar tensor, 'r) agent_m" where
  "sample_m T d = (\<lambda>s. case sample T d (snd s) of (x, r') \<Rightarrow> (Inr x, (fst s, r')))"

section \<open>The actors\<close>

subsection \<open>BernoulliActor\<close>

record BernoulliActor =
  ba_model :: "scalar tensor \<Rightarrow> scalar tensor"

definition BernoulliActor_forward ::
  "'r torch \<Rightarrow> BernoulliActor \<Rightarrow> nat \<Rightarrow> kwargs \<Rightarrow> (unit, 'r) agent_m" where
  "BernoulliActor_forward T self t kw =
     (let stochastic = kw_default False (kw_stochastic kw) in
      bind_m (self_get ''env/env_obs'' t) (\<lambda>obs.
      let mean = ba_model self obs in
      bind_m (construct T (Bernoulli mean)) (\<lambda>dist.
      bind_m (self_set ''entropy'' t (entropy T dist)) (\<lambda>_.
      bind_m (if stochastic
              then bind_m (sample_m T dist) (\<lambda>x. return_m (squeeze_last (int_t x)))
              else (let act = lt_t mean (1 / 2) in return_m (squeeze_last act))) (\<lambda>action.
      bind_m (lift_e (log_prob T dist (float_t action))) (\<lambda>lp.
      let log_prob = sum_last lp in
      bind_m (self_set ''action'' t action) (\<lambda>_.
      self_set ''action_logprobs'' t log_prob)))))))"

definition BernoulliActor_predict_action ::
  "'r torch \<Rightarrow> BernoulliActor \<Rightarrow> scalar tensor \<Rightarrow> bool \<Rightarrow> (scalar tensor, 'r) agent_m" where
  "BernoulliActor_predict_action T self obs stochastic =
     (let mean = ba_model self obs in
      bind_m (construct T (Bernoulli mean)) (\<lambda>dist.
      if stochastic
      then bind_m (sample_m T dist) (\<lambda>x. let act = int_t x in return_m act)
      else (let act = lt_t mean (1 / 2) in return_m act)))"

subsection \<open>ProbAgent and ActionAgent\<close>

record ProbAgent =
  pa_model :: "scalar tensor \<Rightarrow> scalar tensor"

definition ProbAgent_forward ::
  "'r torch \<Rightarrow> ProbAgent \<Rightarrow> nat \<Rightarrow> kwargs \<Rightarrow> (unit, 'r) agent_m" where
  "ProbAgent_forward T self t kw =
     bind_m (self_get ''env/env_obs'' t) (\<lambda>observation.
     let scores = pa_model self observation;
         action_probs = softmax scores in
     bind_m (if any_isnan action_probs then raise_m (AssertionError ''Nan Here'')
             else return_m ()) (\<lambda>_.
     bind_m (self_set ''action_probs'' t action_probs) (\<lambda>_.
     bind_m (construct T (Categorical action_probs)) (\<lambda>d.
     let entropy = entropy T d in
     self_set ''entropy'' t entropy))))"

text \<open>
  ActionAgent (ActorAgent has the same body): \<open>stochastic\<close> is a required argument, so a
  call without it raises TypeError.
\<close>

definition ActionAgent_forward ::
  "'r torch \<Rightarrow> nat \<Rightarrow> kwargs \<Rightarrow> (unit, 'r) agent_m" where
  "ActionAgent_forward T t kw =
     (case kw_stochastic kw of
        None \<Rightarrow> raise_m TypeError
      | Some stochastic \<Rightarrow>
          bind_m (self_get ''action_probs'' t) (\<lambda>probs.
          bind_m (if stochastic
                  then bind_m (construct T (Categorical probs)) (\<lambda>d. sample_m T d)
                  else lift_e (argmax1 probs)) (\<lambda>action.
          self_set ''action'' t action)))"

subsection \<open>DiscreteActor\<close>

record DiscreteActor =
  da_model :: "scalar tensor \<Rightarrow> scalar tensor"

definition DiscreteActor_get_distribution ::
  "'r torch \<Rightarrow> DiscreteActor \<Rightarrow> scalar tensor \<Rightarrow> (dist, 'r) agent_m" where
  "DiscreteActor_get_distribution T self obs =
     (let scores = da_model self obs;
          probs = softmax scores
      in construct T (Categorical probs))"

definition DiscreteActor_forward ::
  "'r torch \<Rightarrow> DiscreteActor \<Rightarrow> nat \<Rightarrow> kwargs \<Rightarrow> (unit, 'r) agent_m" where
  "DiscreteActor_forward T self t kw =
     (let stochastic = kw_default False (kw_stochastic kw);
          predict_proba = kw_default False (kw_predict_proba kw);
          compute_entropy = kw_default False (kw_compute_entropy kw) in
      bind_m (case kw_observation kw of
                Some observation \<Rightarrow> return_m observation
              | None \<Rightarrow> self_get ''env/env_obs'' t) (\<lambda>observation.
      let scores = da_model self observation;
          probs = softmax scores in
      bind_m (if compute_entropy
              then bind_m (construct T (Categorical probs)) (\<lambda>d.
                   let entropy = entropy T d in self_set ''entropy'' t entropy)
              else return_m ()) (\<lambda>_.
      if predict_proba
      then bind_m (self_get ''action'' t) (\<lambda>action.
           bind_m (lift_e (index_rows probs action)) (\<lambda>p.
           let log_prob = log_t p in
           self_set ''logprob_predict'' t log_prob))
      else bind_m (if stochastic
                   then bind_m (construct T (Categorical probs)) (\<lambda>d. sample_m T d)
                   else lift_e (argmax1 scores)) (\<lambda>action.
           bind_m (lift_e (index_rows probs action)) (\<lambda>p.
           let log_probs = log_t p in
           bind_m (self_set ''action'' t action) (\<lambda>_.
           self_set ''action_logprobs'' t log_probs))))))"

subsection \<open>The Gaussian actors\<close>

text \<open>\<open>x[:, 0]\<close> on a two-dimensional parameter: its first column.\<close>

definition col0 :: "'a tensor \<Rightarrow> error + 'a tensor" where
  "col0 x =
     (case shape x of
        [r, c] \<Rightarrow>
          if c = 0 then Inl IndexError
          else Inr \<lparr>shape = [r], data = map (\<lambda>i. data x ! (i * c)) [0..<r]\<rparr>
      | _ \<Rightarrow> Inl IndexError)"

definition map_s :: "(real \<Rightarrow> real) \<Rightarrow> scalar \<Rightarrow> scalar" where
  "map_s f x = (case to_real x of None \<Rightarrow> NaN | Some v \<Rightarrow> Fl (f v))"

text \<open>\<open>torch.nn.Softplus()\<close> with its defaults: linear above the threshold 20.\<close>

definition soft_plus :: "scalar tensor \<Rightarrow> scalar tensor" where
  "soft_plus x = tmap (map_s (\<lambda>v. if 20 < v then v else ln (1 + exp v))) x"

definition exp_t :: "scalar tensor \<Rightarrow> scalar tensor" where
  "exp_t x = tmap (map_s exp) x"

definition clamp :: "scalar tensor \<Rightarrow> real \<Rightarrow> real \<Rightarrow> scalar tensor" where
  "clamp x lo hi = tmap (map_s (\<lambda>v. min (max v lo) hi)) x"

record TunableVarianceContinuousActor =
  tv_model :: "scalar tensor \<Rightarrow> scalar tensor"
  tv_std_param :: "scalar tensor"

definition TunableVarianceContinuousActor_forward ::
  "'r torch \<Rightarrow> TunableVarianceContinuousActor \<Rightarrow> nat \<Rightarrow> kwargs \<Rightarrow> (unit, 'r) agent_m" where
  "TunableVarianceContinuousActor_forward T self t kw =
     (let stochastic = kw_default False (kw_stochastic kw);
          predict_proba = kw_default False (kw_predict_proba kw);
          compute_entropy = kw_default False (kw_compute_entropy kw) in
      bind_m (self_get ''env/env_obs'' t) (\<lambda>obs.
      let mean = tv_model self obs in
      bind_m (lift_e (col0 (tv_std_param self))) (\<lambda>std0.
      bind_m (construct T (Normal mean (soft_plus std0))) (\<lambda>n.
      bind_m (construct T (Independent n 1)) (\<lambda>dist.
      bind_m (if compute_entropy then self_set ''entropy'' t (entropy T dist)
              else return_m ()) (\<lambda>_.
      if predict_proba
      then bind_m (self_get ''action'' t) (\<lambda>action.
           bind_m (lift_e (log_prob T dist action)) (\<lambda>log_prob.
           self_set ''logprob_predict'' t log_prob))
      else bind_m (if stochastic then sample_m T dist else return_m mean) (\<lambda>action.
           bind_m (lift_e (log_prob T dist action)) (\<lambda>log_prob.
           bind_m (self_set ''action'' t action) (\<lambda>_.
           self_set ''action_logprobs'' t log_prob)))))))))"

record TunableVarianceContinuousActorExp =
  te_model :: "scalar tensor \<Rightarrow> scalar tensor"
  te_std_param :: "scalar tensor"

definition TunableVarianceContinuousActorExp_get_distribution ::
  "'r torch \<Rightarrow> TunableVarianceContinuousActorExp \<Rightarrow> scalar tensor \<Rightarrow> (dist, 'r) agent_m" where
  "TunableVarianceContinuousActorExp_get_distribution T self obs =
     (let mean = te_model self obs;
          std = clamp (te_std_param self) (- 20) 2 in
      bind_m (construct T (Normal mean (exp_t std))) (\<lambda>n. construct T (Independent n 1)))"

text \<open>Here \<open>stochastic\<close> defaults to True.\<close>

definition TunableVarianceContinuousActorExp_forward ::
  "'r torch \<Rightarrow> TunableVarianceContinuousActorExp \<Rightarrow> nat \<Rightarrow> kwargs \<Rightarrow> (unit, 'r) agent_m" where
  "TunableVarianceContinuousActorExp_forward T self t kw =
     (let stochastic = kw_default True (kw_stochastic kw);
          predict_proba = kw_default False (kw_predict_proba kw);
          compute_entropy = kw_default False (kw_compute_entropy kw) in
      bind_m (self_get ''env/env_obs'' t) (\<lambda>obs.
      bind_m (TunableVarianceContinuousActorExp_get_distribution T self obs) (\<lambda>dist.
      bind_m (if compute_entropy then self_set ''entropy'' t (entropy T dist)
              else return_m ()) (\<lambda>_.
      if predict_proba
      then bind_m (self_get ''action'' t) (\<lambda>action.
           bind_m (lift_e (log_prob T dist action)) (\<lambda>lp.
           self_set ''logprob_predict'' t lp))
      else bind_m (if stochastic then sample_m T dist else return_m (mean_of T dist)) (\<lambda>action.
           bind_m (lift_e (log_prob T dist action)) (\<lambda>logp_pi.
           bind_m (self_set ''action'' t action) (\<lambda>_.
           self_set ''action_logprobs'' t logp_pi)))))))"

record StateDependentVarianceContinuousActor =
  sd_backbone :: "scalar tensor \<Rightarrow> scalar tensor"
  sd_last_mean_layer :: "scalar tensor \<Rightarrow> scalar tensor"
  sd_last_std_layer :: "scalar tensor \<Rightarrow> scalar tensor"

definition StateDependentVarianceContinuousActor_forward ::
  "'r torch \<Rightarrow> StateDependentVarianceContinuousActor \<Rightarrow> nat \<Rightarrow> kwargs \<Rightarrow> (unit, 'r) agent_m" where
  "StateDependentVarianceContinuousActor_forward T self t kw =
     (let stochastic = kw_default False (kw_stochastic kw);
          predict_proba = kw_default False (kw_predict_proba kw);
          compute_entropy = kw_default False (kw_compute_entropy kw) in
      bind_m (self_get ''env/env_obs'' t) (\<lambda>obs.
      let backbone_output = sd_backbone self obs;
          mean = sd_last_mean_layer self backbone_output;
          std_out = sd_last_std_layer self backbone_output;
          std = exp_t std_out in
      bind_m (construct T (Normal mean std)) (\<lambda>n.
      bind_m (construct T (Independent n 1)) (\<lambda>dist.
      bind_m (if compute_entropy then self_set ''entropy'' t (entropy T dist)
              else return_m ()) (\<lambda>_.
      if predict_proba
      then bind_m (self_get ''action'' t) (\<lambda>action.
           bind_m (lift_e (log_prob T dist action)) (\<lambda>lp.
           self_set ''logprob_predict'' t lp))
      else bind_m (if stochastic then sample_m T dist else return_m mean) (\<lambda>action.
           bind_m (lift_e (log_prob T dist action)) (\<lambda>log_prob.
           bind_m (self_set ''action'' t action) (\<lambda>_.
           self_set ''action_logprobs'' t log_prob))))))))"

text \<open>ConstantVarianceContinuousActor: \<open>std_param\<close> is the Python number 2.\<close>

record ConstantVarianceContinuousActor =
  cv_model :: "scalar tensor \<Rightarrow> scalar tensor"

definition cv_std_param :: "scalar tensor" where
  "cv_std_param = \<lparr>shape = [], data = [In 2]\<rparr>"

definition ConstantVarianceContinuousActor_forward ::
  "'r torch \<Rightarrow> ConstantVarianceContinuousActor \<Rightarrow> nat \<Rightarrow> kwargs \<Rightarrow> (unit, 'r) agent_m" where
  "ConstantVarianceContinuousActor_forward T self t kw =
     (let predict_proba = kw_default False (kw_predict_proba kw);
          stochastic = kw_default False (kw_stochastic kw) in
      bind_m (self_get ''env/env_obs'' t) (\<lambda>obs.
      let mean = cv_model self obs in
      bind_m (construct T (Normal mean cv_std_param)) (\<lambda>dist.
      bind_m (self_set ''entropy'' t (entropy T dist)) (\<lambda>_.
      if predict_proba
      then bind_m (self_get ''action'' t) (\<lambda>action.
           bind_m (lift_e (log_prob T dist action)) (\<lambda>lp.
           self_set ''logprob_predict'' t lp))
      else bind_m (if stochastic then sample_m T dist else return_m mean) (\<lambda>action.
           bind_m (lift_e (log_prob T dist action)) (\<lambda>lp.
           let log_prob = sum_last lp in
           bind_m (self_set ''action'' t action) (\<lambda>_.
           self_set ''action_logprobs'' t log_prob)))))))"

record SquashedGaussianActor =
  sg_backbone :: "scalar tensor \<Rightarrow> scalar tensor"
  sg_last_mean_layer :: "scalar tensor \<Rightarrow> scalar tensor"
  sg_last_std_layer :: "scalar tensor \<Rightarrow> scalar tensor"

definition SquashedGaussianActor_get_distribution ::
  "'r torch \<Rightarrow> SquashedGaussianActor \<Rightarrow> scalar tensor \<Rightarrow> (dist, 'r) agent_m" where
  "SquashedGaussianActor_get_distribution T self obs =
     (let backbone_output = sg_backbone self obs;
          mean = sg_last_mean_layer self backbone_output;
          std_out = sg_last_std_layer self backbone_output;
          std_out = clamp std_out (- 20) 2;
          std = exp_t std_out
      in construct T (SquashedDiagGaussian mean std))"

definition SquashedGaussianActor_forward ::
  "'r torch \<Rightarrow> SquashedGaussianActor \<Rightarrow> nat \<Rightarrow> kwargs \<Rightarrow> (unit, 'r) agent_m" where
  "SquashedGaussianActor_forward T self t kw =
     (let stochastic = kw_default False (kw_stochastic kw);
          predict_proba = kw_default False (kw_predict_proba kw) in
      bind_m (self_get ''env/env_obs'' t) (\<lambda>obs.
      bind_m (SquashedGaussianActor_get_distribution T self obs) (\<lambda>action_dist.
      if predict_proba
      then bind_m (self_get ''action'' t) (\<lambda>action.
           bind_m (lift_e (log_prob T action_dist action)) (\<lambda>log_prob.
           self_set ''logprob_predict'' t log_prob))
      else bind_m (if stochastic then sample_m T action_dist
                   else return_m (mode T action_dist)) (\<lambda>action.
           bind_m (lift_e (log_prob T action_dist action)) (\<lambda>log_prob.
           bind_m (self_set ''action'' t action) (\<lambda>_.
           self_set ''action_logprobs'' t log_prob))))))"

subsection \<open>The actor classes together\<close>

text \<open>
  The training loops pick the actor class by name (\<open>globals()[cfg.algorithm.actor_type]\<close>)
  and call its \<open>forward\<close> through the temporal agent.
\<close>

datatype actor =
    ABernoulli BernoulliActor
  | ADiscrete DiscreteActor
  | ATunable TunableVarianceContinuousActor
  | ATunableExp TunableVarianceContinuousActorExp
  | AStateDependent StateDependentVarianceContinuousActor
  | AConstant ConstantVarianceContinuousActor
  | ASquashed SquashedGaussianActor

fun forward :: "'r torch \<Rightarrow> actor \<Rightarrow> nat \<Rightarrow> kwargs \<Rightarrow> (unit, 'r) agent_m" where
  "forward T (ABernoulli self) t kw = BernoulliActor_forward T self t kw"
| "forward T (ADiscrete self) t kw = DiscreteActor_forward T self t kw"
| "forward T (ATunable self) t kw = TunableVarianceContinuousActor_forward T self t kw"
| "forward T (ATunableExp self) t kw = TunableVarianceContinuousActorExp_forward T self t kw"
| "forward T (AStateDependent self) t kw =
     StateDependentVarianceContinuousActor_forward T self t kw"
| "forward T (AConstant self) t kw = ConstantVarianceContinuousActor_forward T self t kw"
| "forward T (ASquashed self) t kw = SquashedGaussianActor_forward T self t kw"

section \<open>A reference instance of the distributions\<close>

definition map2_s :: "(real \<Rightarrow> real \<Rightarrow> real) \<Rightarrow> scalar \<Rightarrow> scalar \<Rightarrow> scalar" where
  "map2_s f a b =
     (case (to_real a, to_real b) of (Some x, Some y) \<Rightarrow> Fl (f x y) | _ \<Rightarrow> NaN)"

definition or_error :: "error + scalar tensor \<Rightarrow> scalar tensor" where
  "or_error r = (case r of Inl e \<Rightarrow> \<lparr>shape = [0], data = []\<rparr> | Inr x \<Rightarrow> x)"

text \<open>
  The textbook formulas of the distributions over the reals, used to run the actors on
  concrete inputs: argument validation is off, and the generator is the list of its
  future draws. The theorems on the actors hold for every instance of the library, not
  only for this one.
\<close>

definition normal_log_prob :: "real \<Rightarrow> real \<Rightarrow> real \<Rightarrow> real" where
  "normal_log_prob m s x = - ((x - m)\<^sup>2) / (2 * s\<^sup>2) - ln s - ln (sqrt (2 * pi))"

definition normal_entropy :: "scalar tensor \<Rightarrow> scalar tensor \<Rightarrow> scalar tensor" where
  "normal_entropy m s =
     or_error (binop (map2_s (\<lambda>m s. 1 / 2 + ln (sqrt (2 * pi)) + ln s)) m s)"

definition normal_log_prob_t ::
  "scalar tensor \<Rightarrow> scalar tensor \<Rightarrow> scalar tensor \<Rightarrow> error + scalar tensor" where
  "normal_log_prob_t m s x =
     bind_e (binop Pair m s) (\<lambda>ms.
       binop (\<lambda>(m, s) x. case (to_real m, to_real s, to_real x) of
                            (Some m, Some s, Some x) \<Rightarrow> Fl (normal_log_prob m s x)
                          | _ \<Rightarrow> NaN) ms x)"

definition ref_valid_args :: "dist \<Rightarrow> bool" where
  "ref_valid_args d =
     (case d of Normal m s \<Rightarrow> broadcast_shapes (shape m) (shape s) \<noteq> None | _ \<Rightarrow> True)"

fun ref_entropy :: "dist \<Rightarrow> scalar tensor" where
  "ref_entropy (Bernoulli p) =
     tmap (map_s (\<lambda>p. - (p * ln p + (1 - p) * ln (1 - p)))) p"
| "ref_entropy (Categorical p) =
     \<lparr>shape = butlast (shape p),
      data = map (\<lambda>r. sum_s (map (map_s (\<lambda>p. - (p * ln p))) r)) (rows p)\<rparr>"
| "ref_entropy (Normal m s) = normal_entropy m s"
| "ref_entropy (Independent d n) = (sum_last ^^ n) (ref_entropy d)"
| "ref_entropy (SquashedDiagGaussian m s) = sum_last (normal_entropy m s)"

fun ref_log_prob :: "dist \<Rightarrow> scalar tensor \<Rightarrow> error + scalar tensor" where
  "ref_log_prob (Bernoulli p) x =
     binop (map2_s (\<lambda>p x. x * ln p + (1 - x) * ln (1 - p))) p x"
| "ref_log_prob (Categorical p) x = bind_e (index_rows p x) (\<lambda>y. Inr (log_t y))"
| "ref_log_prob (Normal m s) x = normal_log_prob_t m s x"
| "ref_log_prob (Independent d n) x =
     bind_e (ref_log_prob d x) (\<lambda>y. Inr ((sum_last ^^ n) y))"
| "ref_log_prob (SquashedDiagGaussian m s) x =
     bind_e (normal_log_prob_t m s (tmap (map_s artanh) x)) (\<lambda>g.
       binop (map2_s (-)) (sum_last g)
         (sum_last (tmap (map_s (\<lambda>a. ln (1 - a\<^sup>2 + 1 / 1000000))) x)))"

fun ref_mean :: "dist \<Rightarrow> scalar tensor" where
  "ref_mean (Bernoulli p) = p"
| "ref_mean (Categorical p) = \<lparr>shape = butlast (shape p), data = map (\<lambda>_. NaN) (rows p)\<rparr>"
| "ref_mean (Normal m s) = or_error (binop (\<lambda>m s. m) m s)"
| "ref_mean (Independent d n) = ref_mean d"
| "ref_mean (SquashedDiagGaussian m s) = tmap (map_s tanh) m"

fun ref_mode :: "dist \<Rightarrow> scalar tensor" where
  "ref_mode (Bernoulli p) = tmap (\<lambda>v. Fl (if lt_s v (1 / 2) then 0 else 1)) p"
| "ref_mode (Categorical p) = or_error (argmax1 p)"
| "ref_mode d = ref_mean d"

definition ref_sample :: "dist \<Rightarrow> scalar tensor list \<Rightarrow> scalar tensor \<times> scalar tensor list" where
  "ref_sample d r = (case r of [] \<Rightarrow> (ref_mode d, []) | x # xs \<Rightarrow> (x, xs))"

definition ref_torch :: "scalar tensor list torch" where
  "ref_torch =
     \<lparr>valid_args = ref_valid_args, entropy = ref_entropy, log_prob = ref_log_prob,
      sample = ref_sample, mode = ref_mode, mean_of = ref_mean\<rparr>"

section \<open>Frame conditions and the policy of an actor\<close>

text \<open>
  \<open>preserves P m\<close>: whatever \<open>m\<close> does, returning or raising, a state that satisfies \<open>P\<close>
  is left satisfying \<open>P\<close>. \<open>untouched C s0\<close> holds of the states whose channels in \<open>C\<close> and
  whose generator are those of \<open>s0\<close>; \<open>kept C s0\<close> asks it of the channels only.
\<close>

definition preserves :: "('r state \<Rightarrow> bool) \<Rightarrow> ('a, 'r) agent_m \<Rightarrow> bool" where
  "preserves P m = (\<forall>s. P s \<longrightarrow> P (snd (m s)))"

definition untouched :: "string set \<Rightarrow> 'r state \<Rightarrow> 'r state \<Rightarrow> bool" where
  "untouched C s0 s = ((\<forall>c\<in>C. fst s c = fst s0 c) \<and> snd s = snd s0)"

definition kept :: "string set \<Rightarrow> 'r state \<Rightarrow> 'r state \<Rightarrow> bool" where
  "kept C s0 s = (\<forall>c\<in>C. fst s c = fst s0 c)"

text \<open>
  The classes whose \<open>forward\<close> declares the \<open>predict_proba\<close> option, those whose \<open>forward\<close>
  tests \<open>compute_entropy\<close>, the observation a call works on (DiscreteActor takes it from
  the keyword \<open>observation\<close> when it is passed), the distribution a class builds from an
  observation (its \<open>get_distribution\<close>, before the constructor's check) and the
  log-probability of an action under it (DiscreteActor reads it off the softmax output).
  \<open>rescores_action\<close> holds of the classes whose \<open>predict_proba\<close> branch writes that
  log-probability as the other branch does: not of BernoulliActor, which has no such
  branch, nor of ConstantVarianceContinuousActor, whose \<open>predict_proba\<close> branch writes
  \<open>dist.log_prob(action)\<close> where the other branch writes its sum over the last axis.
\<close>

fun declares_predict_proba :: "actor \<Rightarrow> bool" where
  "declares_predict_proba (ABernoulli self) = False"
| "declares_predict_proba _ = True"

definition observation_of :: "actor \<Rightarrow> kwargs \<Rightarrow> workspace \<Rightarrow> nat \<Rightarrow> error + scalar tensor" where
  "observation_of a kw w t =
     (case (a, kw_observation kw) of
        (ADiscrete self, Some observation) \<Rightarrow> Inr observation
      | _ \<Rightarrow> get_ws w ''env/env_obs'' t)"

fun policy :: "actor \<Rightarrow> scalar tensor \<Rightarrow> error + dist" where
  "policy (ABernoulli self) obs = Inr (Bernoulli (ba_model self obs))"
| "policy (ADiscrete self) obs = Inr (Categorical (softmax (da_model self obs)))"
| "policy (ATunable self) obs =
     bind_e (col0 (tv_std_param self)) (\<lambda>std0.
       Inr (Independent (Normal (tv_model self obs) (soft_plus std0)) 1))"
| "policy (ATunableExp self) obs =
     Inr (Independent (Normal (te_model self obs) (exp_t (clamp (te_std_param self) (- 20) 2))) 1)"
| "policy (AStateDependent self) obs =
     (let backbone_output = sd_backbone self obs
      in Inr (Independent (Normal (sd_last_mean_layer self backbone_output)
                                  (exp_t (sd_last_std_layer self backbone_output))) 1))"
| "policy (AConstant self) obs = Inr (Normal (cv_model self obs) cv_std_param)"
| "policy (ASquashed self) obs =
     (let backbone_output = sg_backbone self obs
      in Inr (SquashedDiagGaussian (sg_last_mean_layer self backbone_output)
                (exp_t (clamp (sg_last_std_layer self backbone_output) (- 20) 2))))"

fun gates_entropy :: "actor \<Rightarrow> bool" where
  "gates_entropy (ADiscrete self) = True"
| "gates_entropy (ATunable self) = True"
| "gates_entropy (ATunableExp self) = True"
| "gates_entropy (AStateDependent self) = True"
| "gates_entropy _ = False"

fun rescores_action :: "actor \<Rightarrow> bool" where
  "rescores_action (ABernoulli self) = False"
| "rescores_action (AConstant self) = False"
| "rescores_action _ = True"

fun action_log_prob :: "'r torch \<Rightarrow> actor \<Rightarrow> scalar tensor \<Rightarrow> scalar tensor \<Rightarrow> error + scalar tensor" where
  "action_log_prob T (ADiscrete self) obs act =
     bind_e (index_rows (softmax (da_model self obs)) act) (\<lambda>p. Inr (log_t p))"
| "action_log_prob T a obs act = bind_e (policy a obs) (\<lambda>d. log_prob T d act)"

section \<open>The bootstrap mask and the advantages\<close>

text \<open>\<open>x[i]\<close>: the slice of a tensor at index \<open>i\<close> of its first axis.\<close>

definition select0 :: "'a tensor \<Rightarrow> nat \<Rightarrow> error + 'a tensor" where
  "select0 x i =
     (case shape x of
        [] \<Rightarrow> Inl IndexError
      | n # rest \<Rightarrow>
          if i < n
          then Inr \<lparr>shape = rest,
                    data = take (prod_list rest) (drop (i * prod_list rest) (data x))\<rparr>
          else Inl IndexError)"

text \<open>\<open>~x\<close> on a boolean tensor and \<open>torch.logical_or\<close>, which broadcasts.\<close>

definition bitwise_not :: "bool tensor \<Rightarrow> bool tensor" where
  "bitwise_not x = tmap Not x"

definition logical_or :: "bool tensor \<Rightarrow> bool tensor \<Rightarrow> error + bool tensor" where
  "logical_or a b = binop (\<or>) a b"

text \<open>
  The mask of the three training loops,
  \<open>must_bootstrap = torch.logical_or(~done[1], truncated[1])\<close>, on the \<open>env/done\<close> and
  \<open>env/truncated\<close> tensors of the transition workspace: shape \<open>[2, N]\<close>, row 0 the flags at
  the first step of each transition and row 1 those at its second step.
\<close>

definition run_a2c_must_bootstrap :: "bool tensor \<Rightarrow> bool tensor \<Rightarrow> error + bool tensor" where
  "run_a2c_must_bootstrap done truncated =
     bind_e (select0 done 1) (\<lambda>d1.
     bind_e (select0 truncated 1) (\<lambda>t1.
       logical_or (bitwise_not d1) t1))"

definition run_ppo_must_bootstrap :: "bool tensor \<Rightarrow> bool tensor \<Rightarrow> error + bool tensor" where
  "run_ppo_must_bootstrap done truncated =
     bind_e (select0 done 1) (\<lambda>d1.
     bind_e (select0 truncated 1) (\<lambda>t1.
       logical_or (bitwise_not d1) t1))"

definition run_fqi_must_bootstrap :: "bool tensor \<Rightarrow> bool tensor \<Rightarrow> error + bool tensor" where
  "run_fqi_must_bootstrap done truncated =
     bind_e (select0 done 1) (\<lambda>d1.
     bind_e (select0 truncated 1) (\<lambda>t1.
       logical_or (bitwise_not d1) t1))"

text \<open>
  The losses work on tensors of shape \<open>[T, N]\<close>, time step by environment slot, held here
  as the list of their \<open>T\<close> rows. \<open>cfg.algorithm\<close> gives the discount factor and the trace
  decay.
\<close>

record algorithm_cfg =
  cfg_discount_factor :: real
  cfg_gae :: real

text \<open>
  Modelled from the spec: the function \<open>gae\<close> of the bbrl library
  (\<open>bbrl.utils.functionalb\<close>), which the repository imports and does not hold. From value
  rows \<open>V[0..T]\<close>, reward rows \<open>r[0..T-1]\<close> and mask rows \<open>must_bootstrap[0..T-1]\<close> it
  computes the residuals \<open>\<delta>_t = r_t + \<gamma> V_{t+1} must_bootstrap_t - V_t\<close> and accumulates them
  backwards, \<open>A_t = \<delta>_t + \<gamma> \<lambda> must_bootstrap_t A_{t+1}\<close>; the last step has no successor.
\<close>

definition td_residual :: "real \<Rightarrow> real \<Rightarrow> real \<Rightarrow> bool \<Rightarrow> real \<Rightarrow> real" where
  "td_residual r v v' mb \<gamma> = r + \<gamma> * v' * of_bool mb - v"

fun gae ::
  "real list list \<Rightarrow> real list list \<Rightarrow> bool list list \<Rightarrow> real \<Rightarrow> real \<Rightarrow> real list list" where
  "gae (v0 # v1 # vs) (r0 # rs) (m0 # ms) \<gamma> l =
     (let deltas = map (\<lambda>(r, v, v', m). td_residual r v v' m \<gamma>)
                       (zip r0 (zip v0 (zip v1 m0)));
          rest = gae (v1 # vs) rs ms \<gamma> l
      in (case rest of
            [] \<Rightarrow> deltas
          | a1 # _ \<Rightarrow> map (\<lambda>(d, m, a). d + \<gamma> * l * of_bool m * a) (zip deltas (zip m0 a1)))
         # rest)"
| "gae _ _ _ _ _ = []"

text \<open>
  \<open>x.mean()\<close> over all elements; torch gives NaN for a tensor without elements.
\<close>

definition mean :: "real list \<Rightarrow> scalar" where
  "mean xs = (if xs = [] then NaN else Fl (sum_list xs / real (length xs)))"

text \<open>\<open>compute_advantages_loss\<close> of a2c.py and \<open>compute_advantage_loss\<close> of ppo_basic.py.\<close>

definition compute_advantages_loss ::
  "algorithm_cfg \<Rightarrow> real list list \<Rightarrow> bool list list \<Rightarrow> real list list
     \<Rightarrow> scalar \<times> real list list" where
  "compute_advantages_loss cfg reward must_bootstrap v_value =
     (let advantages = gae v_value reward must_bootstrap (cfg_discount_factor cfg) (cfg_gae cfg);
          td_error = map (map (\<lambda>a. a\<^sup>2)) advantages;
          critic_loss = mean (concat td_error)
      in (critic_loss, advantages))"

definition compute_advantage_loss ::
  "algorithm_cfg \<Rightarrow> real list list \<Rightarrow> bool list list \<Rightarrow> real list list
     \<Rightarrow> scalar \<times> real list list" where
  "compute_advantage_loss cfg reward must_bootstrap v_value =
     (let advantages = gae v_value reward must_bootstrap (cfg_discount_factor cfg) (cfg_gae cfg);
          td_error = map (map (\<lambda>a. a\<^sup>2)) advantages;
          critic_loss = mean (concat td_error)
      in (critic_loss, advantages))"

section \<open>Composite and temporal agents\<close>

text \<open>
  Modelled from the spec: the classes Agents and TemporalAgent of the bbrl library, which
  the repository imports and does not hold. An agent is called with a time step and the
  keyword arguments; the composite runs its agents in order at one time step, each on the
  state its predecessors left, and stops at the first raise; the temporal agent runs its
  agent at \<open>t, t + 1, ..., t + n_steps - 1\<close>.
\<close>

type_synonym 'r agent = "nat \<Rightarrow> kwargs \<Rightarrow> (unit, 'r) agent_m"

fun Agents :: "'r agent list \<Rightarrow> 'r agent" where
  "Agents [] t kw = return_m ()"
| "Agents (a # as) t kw = bind_m (a t kw) (\<lambda>_. Agents as t kw)"

fun TemporalAgent :: "'r agent \<Rightarrow> nat \<Rightarrow> nat \<Rightarrow> kwargs \<Rightarrow> (unit, 'r) agent_m" where
  "TemporalAgent agent t 0 kw = return_m ()"
| "TemporalAgent agent t (Suc n) kw =
     bind_m (agent t kw) (\<lambda>_. TemporalAgent agent (Suc t) n kw)"

text \<open>
  Modelled from the spec: \<open>zero_grad\<close> clears the computation-graph state of the stored
  tensors and keeps their values; the tensors of this model carry no such state.
\<close>

definition zero_grad :: "workspace \<Rightarrow> workspace" where
  "zero_grad w = w"

text \<open>
  The rollout at the head of the training loops of \<open>run_a2c\<close> and \<open>run_fqi\<close>, on the agent
  that the temporal agent wraps.
\<close>

definition a2c_train_kwargs :: kwargs where
  "a2c_train_kwargs = \<lparr>kw_stochastic = Some True, kw_predict_proba = Some False,
                        kw_compute_entropy = Some True, kw_observation = None\<rparr>"

definition fqi_train_kwargs :: kwargs where
  "fqi_train_kwargs = \<lparr>kw_stochastic = Some True, kw_predict_proba = None,
                        kw_compute_entropy = None, kw_observation = None\<rparr>"

definition run_a2c_rollout :: "'r agent \<Rightarrow> nat \<Rightarrow> nat \<Rightarrow> (unit, 'r) agent_m" where
  "run_a2c_rollout tr_agent n_steps epoch s =
     (if 0 < epoch
      then (let train_workspace = zero_grad (fst s);
                train_workspace = copy_n_last_steps 1 train_workspace
            in TemporalAgent tr_agent 1 (n_steps - 1) a2c_train_kwargs (train_workspace, snd s))
      else TemporalAgent tr_agent 0 n_steps a2c_train_kwargs s)"

definition run_fqi_rollout :: "'r agent \<Rightarrow> nat \<Rightarrow> nat \<Rightarrow> (unit, 'r) agent_m" where
  "run_fqi_rollout tr_agent n_steps epoch s =
     (if 0 < epoch
      then (let train_workspace = zero_grad (fst s);
                train_workspace = copy_n_last_steps 1 train_workspace
            in TemporalAgent tr_agent 1 (n_steps - 1) fqi_train_kwargs (train_workspace, snd s))
      else TemporalAgent tr_agent 0 n_steps fqi_train_kwargs s)"

text \<open>
  \<open>earlier t s s'\<close>: every entry that \<open>s\<close> holds at a time step before \<open>t\<close> is still in \<open>s'\<close>.
  An agent is local in time when a call at \<open>t\<close> leaves the earlier steps as they were.
\<close>

definition earlier :: "nat \<Rightarrow> 'r state \<Rightarrow> 'r state \<Rightarrow> bool" where
  "earlier t s s' =
     (\<forall>c i. i < t \<and> i < length (fst s c) \<longrightarrow> i < length (fst s' c) \<and> fst s' c ! i = fst s c ! i)"

definition local_at :: "nat \<Rightarrow> ('a, 'r) agent_m \<Rightarrow> bool" where
  "local_at t m = (\<forall>s. earlier t s (snd (m s)))"

definition time_local :: "'r agent \<Rightarrow> bool" where
  "time_local a = (\<forall>t kw. local_at t (a t kw))"

section \<open>The environment driver and the evaluation loop\<close>






















subsection \<open>The trace of a rollout\<close>







section \<open>Concrete inputs\<close>

text \<open>
  One environment slot with a two-dimensional observation, and a Bernoulli actor whose
  network gives the probability 0.3 for every slot of the batch.
\<close>

definition ex_kw :: kwargs where
  "ex_kw = \<lparr>kw_stochastic = Some False, kw_predict_proba = Some False,
            kw_compute_entropy = Some False, kw_observation = None\<rparr>"

definition ex_obs :: "scalar tensor" where
  "ex_obs = \<lparr>shape = [1, 2], data = [Fl 0, Fl 1]\<rparr>"

definition ex_ws :: workspace where
  "ex_ws = empty_ws(''env/env_obs'' := [ex_obs])"

definition ex_bernoulli :: BernoulliActor where
  "ex_bernoulli =
     \<lparr>ba_model = (\<lambda>obs. \<lparr>shape = [hd (shape obs), 1],
                          data = replicate (hd (shape obs)) (Fl (3 / 10))\<rparr>)\<rparr>"

text \<open>
  The same call with \<open>predict_proba=True\<close>, a workspace that already holds an action at
  time 0, and a discrete actor over two actions whose network is the identity: the scores
  are the observation.
\<close>

definition ex_kw_pp :: kwargs where
  "ex_kw_pp = \<lparr>kw_stochastic = Some False, kw_predict_proba = Some True,
               kw_compute_entropy = Some False, kw_observation = None\<rparr>"


definition ex_discrete :: DiscreteActor where
  "ex_discrete = \<lparr>da_model = (\<lambda>obs. obs)\<rparr>"


text \<open>
  Three transitions: the first ends an episode by termination, the second by the time
  limit, the third is inside an episode.
\<close>

definition ex_done :: "bool tensor" where
  "ex_done = \<lparr>shape = [2, 3], data = [False, False, False, True, True, False]\<rparr>"

definition ex_truncated :: "bool tensor" where
  "ex_truncated = \<lparr>shape = [2, 3], data = [False, False, False, False, True, False]\<rparr>"

text \<open>
  The scenario of the specification: two slots and three steps, slot 0 terminates at
  step 1 with rewards 1, 5, 0 and slot 1 never terminates with rewards 1, 1, 1; discount
  0.9 and trace decay 1.
\<close>

definition ex_cfg :: algorithm_cfg where
  "ex_cfg = \<lparr>cfg_discount_factor = 9 / 10, cfg_gae = 1\<rparr>"

definition ex_reward :: "real list list" where
  "ex_reward = [[1, 1], [5, 1], [0, 1]]"

definition ex_v_value :: "real list list" where
  "ex_v_value = [[2, 2], [3, 3], [4, 4]]"

definition ex_must_bootstrap :: "bool list list" where
  "ex_must_bootstrap = [[True, True], [False, True]]"

text \<open>Every row has \<open>n\<close> elements.\<close>

definition rect :: "nat \<Rightarrow> 'a list list \<Rightarrow> bool" where
  "rect n xs = list_all (\<lambda>row. length row = n) xs"

text \<open>
  An environment agent whose observation is the same at every step, a workspace after a
  rollout of two steps, a generator whose next draw is action 0, and the training agent
  made of that environment and the discrete actor.
\<close>

definition ex_env :: "'r agent" where
  "ex_env t kw = self_set ''env/env_obs'' t ex_obs"

definition ex_obs2 :: "scalar tensor" where
  "ex_obs2 = \<lparr>shape = [1, 2], data = [Fl 1, Fl 0]\<rparr>"

definition ex_ws_two :: workspace where
  "ex_ws_two = empty_ws
     (''env/env_obs'' := [ex_obs, ex_obs2],
      ''entropy'' := [\<lparr>shape = [1], data = [Fl 0]\<rparr>, \<lparr>shape = [1], data = [Fl 0]\<rparr>],
      ''action'' := [\<lparr>shape = [1], data = [In 1]\<rparr>, \<lparr>shape = [1], data = [In 0]\<rparr>],
      ''action_logprobs'' :=
        [\<lparr>shape = [1], data = [Fl (- 1)]\<rparr>, \<lparr>shape = [1], data = [Fl (- 1)]\<rparr>])"

definition ex_draws :: "scalar tensor list" where
  "ex_draws = [\<lparr>shape = [1], data = [In 0]\<rparr>]"

definition ex_tr_agent :: "scalar tensor list agent" where
  "ex_tr_agent = Agents [ex_env, forward ref_torch (ADiscrete ex_discrete)]"




section \<open>Verification\<close>

subsection \<open>Workspace and monad laws\<close>

lemma get_set_same:
  "set_ws w c t v = Inr w' \<Longrightarrow> get_ws w' c t = Inr v"
  by (auto simp: set_ws_def get_ws_def split: if_splits)

lemma set_ws_other:
  "set_ws w c t v = Inr w' \<Longrightarrow> c' \<noteq> c \<Longrightarrow> w' c' = w c'"
  by (auto simp: set_ws_def split: if_splits)

lemma get_set_other:
  "set_ws w c t v = Inr w' \<Longrightarrow> c' \<noteq> c \<Longrightarrow> get_ws w' c' t' = get_ws w c' t'"
  by (simp add: get_ws_def set_ws_other)

lemma bind_m_InrE:
  assumes "bind_m m f s = (Inr y, s'')"
  obtains x s' where "m s = (Inr x, s')" and "f x s' = (Inr y, s'')"
  using assms by (auto simp: bind_m_def split: prod.splits sum.splits)

lemma self_get_InrD:
  "self_get c t s = (Inr v, s') \<Longrightarrow> s' = s \<and> get_ws (fst s) c t = Inr v"
  by (auto simp: self_get_def)

lemma self_set_InrD:
  "self_set c t v s = (Inr u, s') \<Longrightarrow> snd s' = snd s \<and> set_ws (fst s) c t v = Inr (fst s')"
  by (auto simp: self_set_def split: sum.splits)

lemma construct_InrD:
  "construct T d s = (Inr d', s') \<Longrightarrow> s' = s \<and> d' = d \<and> valid_args T d"
  by (auto simp: construct_def return_m_def raise_m_def split: if_splits)

lemma lift_e_InrD:
  "lift_e r s = (Inr x, s') \<Longrightarrow> s' = s \<and> r = Inr x"
  by (auto simp: lift_e_def)

lemma return_m_InrD:
  "return_m x s = (Inr y, s') \<Longrightarrow> s' = s \<and> y = x"
  by (auto simp: return_m_def)

lemma sample_m_InrD:
  "sample_m T d s = (Inr x, s') \<Longrightarrow> fst s' = fst s \<and> sample T d (snd s) = (x, snd s')"
  by (auto simp: sample_m_def split: prod.splits)

lemmas InrDs =
  self_get_InrD self_set_InrD construct_InrD lift_e_InrD return_m_InrD sample_m_InrD

lemmas monad_defs =
  bind_m_def return_m_def raise_m_def lift_e_def self_get_def self_set_def
  construct_def sample_m_def get_ws_def set_ws_def kw_default_def

lemmas ref_defs =
  ref_torch_def ref_valid_args_def binop_def broadcast_shapes_def expand_def

lemma returned:
  "fst p = Inr () \<Longrightarrow> p = (Inr (), (fst (snd p), snd (snd p)))"
  by (metis prod.collapse)

lemma lt_s_Fl: "lt_s (Fl p) c = (p < c)"
  by (simp add: lt_s_def)

lemma data_squeeze_last: "data (squeeze_last x) = data x"
  by (simp add: squeeze_last_def)

subsection \<open>Frames and re-scoring\<close>

lemma preserves_bind:
  "preserves P m \<Longrightarrow> (\<And>x. preserves P (f x)) \<Longrightarrow> preserves P (bind_m m f)"
  unfolding preserves_def bind_m_def
  apply (auto split: prod.splits sum.splits)
  apply (metis snd_conv)
  apply (metis snd_conv)
  done

lemma preserves_return: "preserves P (return_m x)"
  by (simp add: preserves_def return_m_def)

lemma preserves_raise: "preserves P (raise_m e)"
  by (simp add: preserves_def raise_m_def)

lemma preserves_lift_e: "preserves P (lift_e x)"
  by (simp add: preserves_def lift_e_def)

lemma preserves_self_get: "preserves P (self_get c t)"
  by (simp add: preserves_def self_get_def)

lemma preserves_construct: "preserves P (construct T d)"
  by (simp add: preserves_def construct_def return_m_def raise_m_def)

lemma preserves_if:
  "preserves P a \<Longrightarrow> preserves P b \<Longrightarrow> preserves P (if c then a else b)"
  by simp

lemma preserves_case_option:
  "preserves P a \<Longrightarrow> (\<And>x. preserves P (b x)) \<Longrightarrow> preserves P (case_option a b c)"
  by (cases c) simp_all

lemma preserves_self_set:
  "c \<notin> C \<Longrightarrow> preserves (untouched C s0) (self_set c t v)"
  by (auto simp: preserves_def self_set_def untouched_def set_ws_def split: sum.splits if_splits)

lemmas preserves_intros =
  preserves_bind preserves_return preserves_raise preserves_lift_e preserves_self_get
  preserves_construct preserves_if preserves_case_option preserves_self_set

lemma preserves_untouchedD:
  "preserves (untouched C (w, r)) m \<Longrightarrow> m (w, r) = (res, (w', r')) \<Longrightarrow> c \<in> C \<Longrightarrow> w' c = w c \<and> r' = r"
  by (auto simp: preserves_def untouched_def dest!: spec[where x="(w, r)"])

lemma preserves_self_set_kept:
  "c \<notin> C \<Longrightarrow> preserves (kept C s0) (self_set c t v)"
  by (auto simp: preserves_def self_set_def kept_def set_ws_def split: sum.splits if_splits)

lemma preserves_sample_kept: "preserves (kept C s0) (sample_m T d)"
  by (auto simp: preserves_def sample_m_def kept_def split: prod.splits)

lemma preserves_keptD:
  "preserves (kept C (w, r)) m \<Longrightarrow> m (w, r) = (res, (w', r')) \<Longrightarrow> c \<in> C \<Longrightarrow> w' c = w c"
proof -
  assume p: "preserves (kept C (w, r)) m" and m: "m (w, r) = (res, (w', r'))" and c: "c \<in> C"
  have "kept C (w, r) (w, r)" by (simp add: kept_def)
  with p have "kept C (w, r) (snd (m (w, r)))" by (simp add: preserves_def)
  with m c show ?thesis by (simp add: kept_def)
qed

lemmas kept_intros =
  preserves_bind preserves_return preserves_raise preserves_lift_e preserves_self_get
  preserves_construct preserves_if preserves_case_option preserves_self_set_kept
  preserves_sample_kept

lemma rescores_declares: "rescores_action a \<Longrightarrow> declares_predict_proba a"
  by (cases a) simp_all

lemma predict_proba_frame:
  assumes "declares_predict_proba a" and "kw_predict_proba kw = Some True"
  shows "preserves (untouched {''action'', ''action_logprobs''} s0) (forward T a t kw)"
proof (cases a)
  case (ABernoulli x) with assms show ?thesis by simp
next
  case (ADiscrete x)
  show ?thesis unfolding ADiscrete forward.simps DiscreteActor_forward_def Let_def
    using assms(2) by (auto simp: kw_default_def intro!: preserves_intros)
next
  case (ATunable x)
  show ?thesis unfolding ATunable forward.simps TunableVarianceContinuousActor_forward_def Let_def
    using assms(2) by (auto simp: kw_default_def intro!: preserves_intros)
next
  case (ATunableExp x)
  show ?thesis unfolding ATunableExp forward.simps TunableVarianceContinuousActorExp_forward_def
     TunableVarianceContinuousActorExp_get_distribution_def Let_def
    using assms(2) by (auto simp: kw_default_def intro!: preserves_intros)
next
  case (AStateDependent x)
  show ?thesis unfolding AStateDependent forward.simps StateDependentVarianceContinuousActor_forward_def Let_def
    using assms(2) by (auto simp: kw_default_def intro!: preserves_intros)
next
  case (AConstant x)
  show ?thesis unfolding AConstant forward.simps ConstantVarianceContinuousActor_forward_def Let_def
    using assms(2) by (auto simp: kw_default_def intro!: preserves_intros)
next
  case (ASquashed x)
  show ?thesis unfolding ASquashed forward.simps SquashedGaussianActor_forward_def
      SquashedGaussianActor_get_distribution_def Let_def
    using assms(2) by (auto simp: kw_default_def intro!: preserves_intros)
qed

lemma if_m_InrE:
  assumes "(if c then a else b) s = (Inr y, s')"
  obtains "c" and "a s = (Inr y, s')" | "\<not> c" and "b s = (Inr y, s')"
  using assms by (cases c) auto

lemmas actor_defs =
  BernoulliActor_forward_def DiscreteActor_forward_def
  TunableVarianceContinuousActor_forward_def TunableVarianceContinuousActorExp_forward_def
  TunableVarianceContinuousActorExp_get_distribution_def
  StateDependentVarianceContinuousActor_forward_def ConstantVarianceContinuousActor_forward_def
  SquashedGaussianActor_forward_def SquashedGaussianActor_get_distribution_def

lemma forward_rescores:
  assumes dp: "declares_predict_proba a"
    and pp: "kw_predict_proba kw = Some True"
    and run: "forward T a t kw (w, r) = (Inr (), (w', r'))"
  shows "\<exists>obs act lp. observation_of a kw w t = Inr obs
      \<and> get_ws w ''action'' t = Inr act
      \<and> action_log_prob T a obs act = Inr lp
      \<and> get_ws w' ''logprob_predict'' t = Inr lp"
proof (cases a)
  case (ABernoulli x) with dp show ?thesis by simp
next
  case (ADiscrete x)
  show ?thesis using run unfolding ADiscrete forward.simps actor_defs Let_def
    apply (simp add: pp kw_default_def)
    apply (elim bind_m_InrE if_m_InrE)
    apply (drule InrDs)+
    apply (auto simp: observation_of_def get_set_same get_set_other bind_e_def
        split: option.splits dest!: InrDs)
    done
next
  case (ATunable x)
  show ?thesis using run unfolding ATunable forward.simps actor_defs Let_def
    apply (simp add: pp kw_default_def)
    apply (elim bind_m_InrE if_m_InrE)
    apply (drule InrDs)+
    apply (auto simp: observation_of_def get_set_same get_set_other bind_e_def
        split: option.splits dest!: InrDs)
    done
next
  case (ATunableExp x)
  show ?thesis using run unfolding ATunableExp forward.simps actor_defs Let_def
    apply (simp add: pp kw_default_def)
    apply (elim bind_m_InrE if_m_InrE)
    apply (drule InrDs)+
    apply (auto simp: observation_of_def get_set_same get_set_other bind_e_def
        split: option.splits dest!: InrDs)
    done
next
  case (AStateDependent x)
  show ?thesis using run unfolding AStateDependent forward.simps actor_defs Let_def
    apply (simp add: pp kw_default_def)
    apply (elim bind_m_InrE if_m_InrE)
    apply (drule InrDs)+
    apply (auto simp: observation_of_def get_set_same get_set_other bind_e_def Let_def
        split: option.splits dest!: InrDs)
    done
next
  case (AConstant x)
  show ?thesis using run unfolding AConstant forward.simps actor_defs Let_def
    apply (simp add: pp kw_default_def)
    apply (elim bind_m_InrE if_m_InrE)
    apply (drule InrDs)+
    apply (auto simp: observation_of_def get_set_same get_set_other bind_e_def
        split: option.splits dest!: InrDs)
    done
next
  case (ASquashed x)
  show ?thesis using run unfolding ASquashed forward.simps actor_defs Let_def
    apply (simp add: pp kw_default_def)
    apply (elim bind_m_InrE if_m_InrE)
    apply (drule InrDs)+
    apply (auto simp: observation_of_def get_set_same get_set_other bind_e_def Let_def
        split: option.splits dest!: InrDs)
    done
qed

lemma BernoulliActor_ignores_predict_proba:
  "BernoulliActor_forward T self t (kw\<lparr>kw_predict_proba := pp\<rparr>) = BernoulliActor_forward T self t kw"
  by (simp add: BernoulliActor_forward_def)

lemma BernoulliActor_keeps_logprob_predict:
  "preserves (kept {''logprob_predict''} s0) (BernoulliActor_forward T self t kw)"
  unfolding BernoulliActor_forward_def Let_def
  by (auto intro!: kept_intros)


subsection \<open>BernoulliActor in greedy mode\<close>

lemma ex_bernoulli_forward:
  "BernoulliActor_forward ref_torch ex_bernoulli 0 ex_kw (ex_ws, []) =
    (Inr (),
     (ex_ws(''entropy'' := [ref_entropy (Bernoulli \<lparr>shape = [1, 1], data = [Fl (3 / 10)]\<rparr>)],
        ''action'' := [\<lparr>shape = [1], data = [Bo True]\<rparr>],
        ''action_logprobs'' :=
          [sum_last \<lparr>shape = [1, 1],
             data = [map2_s (\<lambda>p x. x * ln p + (1 - x) * ln (1 - p)) (Fl (3 / 10)) (Fl 1)]\<rparr>]),
      []))"
  unfolding BernoulliActor_forward_def
  by (simp add: monad_defs ref_defs ex_kw_def ex_ws_def ex_obs_def ex_bernoulli_def
      empty_ws_def Let_def lt_t_def tmap_def squeeze_last_def lt_s_def float_t_def float_s_def)

lemma ex_bernoulli_predict_action:
  "BernoulliActor_predict_action ref_torch ex_bernoulli ex_obs False (ex_ws, []) =
    (Inr \<lparr>shape = [1, 1], data = [Bo True]\<rparr>, (ex_ws, []))"
  unfolding BernoulliActor_predict_action_def
  by (simp add: monad_defs ref_defs ex_obs_def ex_bernoulli_def Let_def lt_t_def tmap_def
      lt_s_def)

text \<open>
  C10: when \<open>forward\<close> returns in greedy mode (\<open>stochastic=False\<close>), the action it stored
  at \<open>t\<close> and the action that \<open>predict_action\<close> returns on the same observation with
  \<open>stochastic=False\<close>, in any state and without touching it, hold the same booleans slot
  by slot: both are \<open>mean.lt(0.5)\<close>, True exactly where the predicted probability is
  strictly below 0.5. \<open>forward\<close> stores the tensor with its last axis squeezed, shape \<open>[B]\<close>
  where \<open>predict_action\<close> returns \<open>[B, 1]\<close>.
\<close>

theorem BernoulliActor_greedy_action:
  assumes "kw_default False (kw_stochastic kw) = False"
    and "BernoulliActor_forward T self t kw (w, r) = (Inr (), (w', r'))"
  shows "\<exists>obs stored returned.
       get_ws w ''env/env_obs'' t = Inr obs
     \<and> get_ws w' ''action'' t = Inr stored
     \<and> BernoulliActor_predict_action T self obs False (w0, r0) = (Inr returned, (w0, r0))
     \<and> data stored = data returned
     \<and> returned = lt_t (ba_model self obs) (1 / 2)
     \<and> stored = squeeze_last returned
     \<and> data stored = map (\<lambda>p. Bo (lt_s p (1 / 2))) (data (ba_model self obs))
     \<and> (\<forall>p. lt_s (Fl p) (1 / 2) = (p < 1 / 2))"
  using assms
  unfolding BernoulliActor_forward_def Let_def
  apply (elim bind_m_InrE)
  apply simp
  apply (drule InrDs)+
  apply (auto simp: get_set_same get_set_other BernoulliActor_predict_action_def bind_m_def
      construct_def return_m_def data_squeeze_last lt_t_def tmap_def Let_def lt_s_Fl)
  done

theorem BernoulliActor_greedy_action_witness:
  "kw_default False (kw_stochastic ex_kw) = False
   \<and> fst (BernoulliActor_forward ref_torch ex_bernoulli 0 ex_kw (ex_ws, [])) = Inr ()
   \<and> get_ws ex_ws ''env/env_obs'' 0 = Inr ex_obs
   \<and> get_ws (fst (snd (BernoulliActor_forward ref_torch ex_bernoulli 0 ex_kw (ex_ws, []))))
        ''action'' 0
     = Inr (squeeze_last (lt_t (ba_model ex_bernoulli ex_obs) (1 / 2)))
   \<and> BernoulliActor_predict_action ref_torch ex_bernoulli ex_obs False (ex_ws, [])
     = (Inr (lt_t (ba_model ex_bernoulli ex_obs) (1 / 2)), (ex_ws, []))
   \<and> data (squeeze_last (lt_t (ba_model ex_bernoulli ex_obs) (1 / 2)))
     = data (lt_t (ba_model ex_bernoulli ex_obs) (1 / 2))
   \<and> lt_t (ba_model ex_bernoulli ex_obs) (1 / 2) = \<lparr>shape = [1, 1], data = [Bo True]\<rparr>"
proof -
  have h1: "kw_default False (kw_stochastic ex_kw) = False"
    by (simp add: kw_default_def ex_kw_def)
  have h2: "fst (BernoulliActor_forward ref_torch ex_bernoulli 0 ex_kw (ex_ws, [])) = Inr ()"
    by (simp add: ex_bernoulli_forward)
  have obs: "get_ws ex_ws ''env/env_obs'' 0 = Inr ex_obs"
    by (simp add: get_ws_def ex_ws_def)
  have v: "lt_t (ba_model ex_bernoulli ex_obs) (1 / 2) = \<lparr>shape = [1, 1], data = [Bo True]\<rparr>"
    using ex_bernoulli_predict_action
    by (simp add: BernoulliActor_predict_action_def bind_m_def construct_def return_m_def
        ref_torch_def ref_valid_args_def Let_def)
  from BernoulliActor_greedy_action [OF h1 returned [OF h2], of ex_ws "[]"] obs h1 h2 v
  show ?thesis by auto
qed

subsection \<open>Re-scoring a stored action\<close>




lemma softmax_ex_obs:
  "softmax ex_obs = \<lparr>shape = [1, 2], data = [Fl (1 / (1 + exp 1)), Fl (exp 1 / (1 + exp 1))]\<rparr>"
  by (simp add: softmax_def rows_def softmax_row_def ex_obs_def Let_def)



subsection \<open>The entropy channel\<close>

lemma no_entropy_frame:
  assumes "(gates_entropy a \<and> kw_default False (kw_compute_entropy kw) = False) \<or> (\<exists>self. a = ASquashed self)"
  shows "preserves (kept {''entropy''} s0) (forward T a t kw)"
proof (cases a)
  case (ABernoulli x) with assms show ?thesis by simp
next
  case (ADiscrete x)
  show ?thesis unfolding ADiscrete forward.simps actor_defs Let_def
    using assms ADiscrete by (auto simp: intro!: kept_intros split: option.splits)
next
  case (ATunable x)
  show ?thesis unfolding ATunable forward.simps actor_defs Let_def
    using assms ATunable by (auto simp: intro!: kept_intros)
next
  case (ATunableExp x)
  show ?thesis unfolding ATunableExp forward.simps actor_defs Let_def
    using assms ATunableExp by (auto simp: intro!: kept_intros)
next
  case (AStateDependent x)
  show ?thesis unfolding AStateDependent forward.simps actor_defs Let_def
    using assms AStateDependent by (auto simp: intro!: kept_intros)
next
  case (AConstant x) with assms show ?thesis by simp
next
  case (ASquashed x)
  show ?thesis unfolding ASquashed forward.simps actor_defs Let_def
    by (auto simp: intro!: kept_intros)
qed

lemma set_ws_keeps_other_get:
  "set_ws w c t v = Inr w' \<Longrightarrow> c' \<noteq> c \<Longrightarrow> get_ws w c' t' = Inr x \<Longrightarrow> get_ws w' c' t' = Inr x"
  by (simp add: get_set_other)

lemma forward_writes_entropy:
  assumes ge: "(gates_entropy a \<and> kw_default False (kw_compute_entropy kw) = True) \<or> (\<exists>self. a = ABernoulli self)"
    and run: "forward T a t kw (w, r) = (Inr (), (w', r'))"
  shows "\<exists>obs d. observation_of a kw w t = Inr obs \<and> policy a obs = Inr d
      \<and> get_ws w' ''entropy'' t = Inr (entropy T d)"
proof (cases a)
  case (ABernoulli x)
  show ?thesis using run unfolding ABernoulli forward.simps actor_defs Let_def
    apply (elim bind_m_InrE if_m_InrE)
    apply (drule InrDs)+
    apply (auto simp: observation_of_def get_set_same get_set_other bind_e_def
        split: option.splits dest!: InrDs)
    done
next
  case (ADiscrete x)
  with ge have ce: "kw_default False (kw_compute_entropy kw) = True" by simp
  show ?thesis using run unfolding ADiscrete forward.simps actor_defs Let_def
    apply (simp add: ce)
    apply (elim bind_m_InrE if_m_InrE)
    apply (drule InrDs)+
    apply (auto simp: observation_of_def get_set_same get_set_other bind_e_def
        split: option.splits dest!: InrDs)
    done
next
  case (ATunable x)
  with ge have ce: "kw_default False (kw_compute_entropy kw) = True" by simp
  show ?thesis using run unfolding ATunable forward.simps actor_defs Let_def
    apply (simp add: ce)
    apply (elim bind_m_InrE if_m_InrE)
    apply (drule InrDs)+
    apply (auto simp: observation_of_def get_set_same get_set_other bind_e_def
        split: option.splits dest!: InrDs)
    done
next
  case (ATunableExp x)
  with ge have ce: "kw_default False (kw_compute_entropy kw) = True" by simp
  show ?thesis using run unfolding ATunableExp forward.simps actor_defs Let_def
    apply (simp add: ce)
    apply (elim bind_m_InrE if_m_InrE)
    apply (drule InrDs)+
    apply (auto simp: observation_of_def get_set_same get_set_other bind_e_def
        split: option.splits dest!: InrDs)
    done
next
  case (AStateDependent x)
  with ge have ce: "kw_default False (kw_compute_entropy kw) = True" by simp
  show ?thesis using run unfolding AStateDependent forward.simps actor_defs Let_def
    apply (simp add: ce)
    apply (elim bind_m_InrE if_m_InrE)
    apply (drule InrDs)+
    apply (auto simp: observation_of_def get_set_same get_set_other bind_e_def Let_def
        split: option.splits dest!: InrDs)
    done
next
  case (AConstant x) with ge show ?thesis by simp
next
  case (ASquashed x) with ge show ?thesis by simp
qed

subsection \<open>When the entropy is written\<close>

text \<open>
  The call with \<open>compute_entropy=True\<close>, and a squashed Gaussian actor whose layers are
  the identity.
\<close>

definition ex_kw_ent :: kwargs where
  "ex_kw_ent = \<lparr>kw_stochastic = Some False, kw_predict_proba = Some False,
               kw_compute_entropy = Some True, kw_observation = None\<rparr>"

definition ex_squashed :: SquashedGaussianActor where
  "ex_squashed = \<lparr>sg_backbone = (\<lambda>obs. obs), sg_last_mean_layer = (\<lambda>h. h),
                   sg_last_std_layer = (\<lambda>h. h)\<rparr>"

text \<open>
  C7, as stated, for every actor agent: the entropy channel is written exactly when
  \<open>compute_entropy\<close> is true. BernoulliActor has no such option and writes the entropy at
  every call: here with \<open>compute_entropy=False\<close>.
\<close>

theorem BernoulliActor_entropy_counterexample:
  "kw_compute_entropy ex_kw = Some False
   \<and> fst (forward ref_torch (ABernoulli ex_bernoulli) 0 ex_kw (ex_ws, [])) = Inr ()
   \<and> get_ws ex_ws ''entropy'' 0 = Inl MissingEntry
   \<and> get_ws (fst (snd (forward ref_torch (ABernoulli ex_bernoulli) 0 ex_kw (ex_ws, []))))
        ''entropy'' 0
      = Inr (ref_entropy (Bernoulli \<lparr>shape = [1, 1], data = [Fl (3 / 10)]\<rparr>))"
proof -
  have a: "kw_compute_entropy ex_kw = Some False" by (simp add: ex_kw_def)
  have b: "get_ws ex_ws ''entropy'' 0 = Inl MissingEntry"
    by (simp add: get_ws_def ex_ws_def empty_ws_def)
  show ?thesis
    by (simp add: a b ex_bernoulli_forward) (simp add: get_ws_def)
qed

text \<open>
  C7, amended: DiscreteActor, the two TunableVariance actors and StateDependentVariance
  write the entropy channel exactly when \<open>compute_entropy\<close> is true: without the flag the
  channel is left as it was, and with it a call that returns has written, at \<open>t\<close>, the
  entropy of the distribution computed from the observation. BernoulliActor writes that
  entropy at every call that returns, and SquashedGaussianActor never writes the channel.
\<close>

theorem entropy_written_when_asked:
  assumes "forward T a t kw (w, r) = (res, (w', r'))"
  shows "(gates_entropy a \<and> kw_default False (kw_compute_entropy kw) = False
            \<longrightarrow> w' ''entropy'' = w ''entropy'')
     \<and> (gates_entropy a \<and> kw_default False (kw_compute_entropy kw) = True \<and> res = Inr ()
            \<longrightarrow> (\<exists>obs d. observation_of a kw w t = Inr obs \<and> policy a obs = Inr d
                   \<and> get_ws w' ''entropy'' t = Inr (entropy T d)))
     \<and> ((\<exists>self. a = ABernoulli self) \<and> res = Inr ()
            \<longrightarrow> (\<exists>obs d. observation_of a kw w t = Inr obs \<and> policy a obs = Inr d
                   \<and> get_ws w' ''entropy'' t = Inr (entropy T d)))
     \<and> ((\<exists>self. a = ASquashed self) \<longrightarrow> w' ''entropy'' = w ''entropy'')"
proof (intro conjI impI)
  assume h: "gates_entropy a \<and> kw_default False (kw_compute_entropy kw) = False"
  then have "preserves (kept {''entropy''} (w, r)) (forward T a t kw)"
    by (intro no_entropy_frame) simp
  from preserves_keptD [OF this assms] show "w' ''entropy'' = w ''entropy''" by simp
next
  assume h: "\<exists>self. a = ASquashed self"
  then have "preserves (kept {''entropy''} (w, r)) (forward T a t kw)"
    by (intro no_entropy_frame) simp
  from preserves_keptD [OF this assms] show "w' ''entropy'' = w ''entropy''" by simp
next
  assume h: "gates_entropy a \<and> kw_default False (kw_compute_entropy kw) = True \<and> res = Inr ()"
  then show "\<exists>obs d. observation_of a kw w t = Inr obs \<and> policy a obs = Inr d
                   \<and> get_ws w' ''entropy'' t = Inr (entropy T d)"
    using forward_writes_entropy [of a kw T t w r w' r'] assms by simp
next
  assume h: "(\<exists>self. a = ABernoulli self) \<and> res = Inr ()"
  then show "\<exists>obs d. observation_of a kw w t = Inr obs \<and> policy a obs = Inr d
                   \<and> get_ws w' ''entropy'' t = Inr (entropy T d)"
    using forward_writes_entropy [of a kw T t w r w' r'] assms by simp
qed

lemma run_eq: "p = (fst p, (fst (snd p), snd (snd p)))"
  by simp

lemma argmax1_ex_obs: "argmax1 ex_obs = Inr \<lparr>shape = [1], data = [In 1]\<rparr>"
  by (simp add: argmax1_def ex_obs_def rows_def argmax_row_def gt_s_def)

lemma index_rows_ex:
  "index_rows (softmax ex_obs) \<lparr>shape = [Suc 0], data = [In 1]\<rparr>
     = Inr \<lparr>shape = [1], data = [Fl (exp 1 / (1 + exp 1))]\<rparr>"
  by (simp add: softmax_ex_obs index_rows_def column_index_def index_of_def binop_def bind_e_def)

lemma ex_discrete_forward_ent:
  "DiscreteActor_forward ref_torch ex_discrete 0 ex_kw_ent (ex_ws, []) =
    (Inr (),
     (ex_ws(''entropy'' := [ref_entropy (Categorical (softmax ex_obs))],
        ''action'' := [\<lparr>shape = [1], data = [In 1]\<rparr>],
        ''action_logprobs'' := [\<lparr>shape = [1], data = [log_s (Fl (exp 1 / (1 + exp 1)))]\<rparr>]), []))"
  unfolding DiscreteActor_forward_def
  by (simp add: monad_defs ex_kw_ent_def ex_ws_def ex_discrete_def ref_torch_def ref_valid_args_def
      empty_ws_def Let_def argmax1_ex_obs index_rows_ex log_t_def tmap_def)

lemma ex_discrete_forward:
  "DiscreteActor_forward ref_torch ex_discrete 0 ex_kw (ex_ws, []) =
    (Inr (),
     (ex_ws(''action'' := [\<lparr>shape = [1], data = [In 1]\<rparr>],
        ''action_logprobs'' := [\<lparr>shape = [1], data = [log_s (Fl (exp 1 / (1 + exp 1)))]\<rparr>]), []))"
  unfolding DiscreteActor_forward_def
  by (simp add: monad_defs ex_kw_def ex_ws_def ex_discrete_def
      empty_ws_def Let_def argmax1_ex_obs index_rows_ex log_t_def tmap_def)

theorem entropy_written_when_asked_witness:
  "gates_entropy (ADiscrete ex_discrete)
   \<and> kw_default False (kw_compute_entropy ex_kw_ent) = True
   \<and> fst (forward ref_torch (ADiscrete ex_discrete) 0 ex_kw_ent (ex_ws, [])) = Inr ()
   \<and> get_ws (fst (snd (forward ref_torch (ADiscrete ex_discrete) 0 ex_kw_ent (ex_ws, []))))
        ''entropy'' 0 = Inr (entropy ref_torch (Categorical (softmax ex_obs)))
   \<and> kw_default False (kw_compute_entropy ex_kw) = False
   \<and> fst (snd (forward ref_torch (ADiscrete ex_discrete) 0 ex_kw (ex_ws, []))) ''entropy''
       = ex_ws ''entropy''
   \<and> fst (forward ref_torch (ABernoulli ex_bernoulli) 0 ex_kw (ex_ws, [])) = Inr ()
   \<and> get_ws (fst (snd (forward ref_torch (ABernoulli ex_bernoulli) 0 ex_kw (ex_ws, []))))
        ''entropy'' 0 = Inr (entropy ref_torch (Bernoulli (ba_model ex_bernoulli ex_obs)))
   \<and> fst (snd (forward ref_torch (ASquashed ex_squashed) 0 ex_kw_ent (ex_ws, []))) ''entropy''
       = ex_ws ''entropy''"
proof -
  have g: "gates_entropy (ADiscrete ex_discrete)" by simp
  have k1: "kw_default False (kw_compute_entropy ex_kw_ent) = True"
    by (simp add: kw_default_def ex_kw_ent_def)
  have k0: "kw_default False (kw_compute_entropy ex_kw) = False"
    by (simp add: kw_default_def ex_kw_def)
  have r1: "fst (forward ref_torch (ADiscrete ex_discrete) 0 ex_kw_ent (ex_ws, [])) = Inr ()"
    by (simp add: ex_discrete_forward_ent)
  have rb: "fst (forward ref_torch (ABernoulli ex_bernoulli) 0 ex_kw (ex_ws, [])) = Inr ()"
    by (simp add: ex_bernoulli_forward)
  have o1: "observation_of (ADiscrete ex_discrete) ex_kw_ent ex_ws 0 = Inr ex_obs"
    by (simp add: observation_of_def ex_kw_ent_def get_ws_def ex_ws_def)
  have ob: "observation_of (ABernoulli ex_bernoulli) ex_kw ex_ws 0 = Inr ex_obs"
    by (simp add: observation_of_def ex_kw_def get_ws_def ex_ws_def)
  have a: "get_ws (fst (snd (forward ref_torch (ADiscrete ex_discrete) 0 ex_kw_ent (ex_ws, []))))
        ''entropy'' 0 = Inr (entropy ref_torch (Categorical (softmax ex_obs)))"
    using entropy_written_when_asked [OF returned [OF r1]] g k1 o1
    by (auto simp: ex_discrete_def)
  have b: "fst (snd (forward ref_torch (ADiscrete ex_discrete) 0 ex_kw (ex_ws, []))) ''entropy''
       = ex_ws ''entropy''"
    using entropy_written_when_asked
      [OF run_eq [of "forward ref_torch (ADiscrete ex_discrete) 0 ex_kw (ex_ws, [])"]] g k0
    by blast
  have c: "get_ws (fst (snd (forward ref_torch (ABernoulli ex_bernoulli) 0 ex_kw (ex_ws, []))))
        ''entropy'' 0 = Inr (entropy ref_torch (Bernoulli (ba_model ex_bernoulli ex_obs)))"
    using entropy_written_when_asked [OF returned [OF rb]] ob
    by auto
  have d: "fst (snd (forward ref_torch (ASquashed ex_squashed) 0 ex_kw_ent (ex_ws, []))) ''entropy''
       = ex_ws ''entropy''"
    using entropy_written_when_asked
      [OF run_eq [of "forward ref_torch (ASquashed ex_squashed) 0 ex_kw_ent (ex_ws, [])"]]
    by blast
  from g k1 k0 r1 rb a b c d show ?thesis by blast
qed

subsection \<open>The round trip of re-scoring, and NaN probabilities\<close>

text \<open>A network whose weights have diverged: every output is NaN.\<close>

definition ex_nan_net :: "scalar tensor \<Rightarrow> scalar tensor" where
  "ex_nan_net obs = tmap (\<lambda>x. NaN) obs"

lemma forward_keeps_env_obs:
  "preserves (kept {''env/env_obs''} s0) (forward T a t kw)"
proof (cases a)
  case (ABernoulli x)
  show ?thesis unfolding ABernoulli forward.simps actor_defs Let_def
    by (auto intro!: kept_intros)
next
  case (ADiscrete x)
  show ?thesis unfolding ADiscrete forward.simps actor_defs Let_def
    by (auto intro!: kept_intros split: option.splits)
next
  case (ATunable x)
  show ?thesis unfolding ATunable forward.simps actor_defs Let_def
    by (auto intro!: kept_intros)
next
  case (ATunableExp x)
  show ?thesis unfolding ATunableExp forward.simps actor_defs Let_def
    by (auto intro!: kept_intros)
next
  case (AStateDependent x)
  show ?thesis unfolding AStateDependent forward.simps actor_defs Let_def
    by (auto intro!: kept_intros)
next
  case (AConstant x)
  show ?thesis unfolding AConstant forward.simps actor_defs Let_def
    by (auto intro!: kept_intros)
next
  case (ASquashed x)
  show ?thesis unfolding ASquashed forward.simps actor_defs Let_def
    by (auto intro!: kept_intros)
qed

lemma forward_scores_new_action:
  assumes rt: "rescores_action a"
    and pp: "kw_default False (kw_predict_proba kw) = False"
    and run: "forward T a t kw (w, r) = (Inr (), (w', r'))"
  shows "\<exists>obs act lp. observation_of a kw w t = Inr obs
      \<and> get_ws w' ''action'' t = Inr act
      \<and> action_log_prob T a obs act = Inr lp
      \<and> get_ws w' ''action_logprobs'' t = Inr lp"
proof (cases a)
  case (ABernoulli x) with rt show ?thesis by simp
next
  case (AConstant x) with rt show ?thesis by simp
next
  case (ADiscrete x)
  show ?thesis using run unfolding ADiscrete forward.simps actor_defs Let_def
    apply (simp add: pp)
    apply (elim bind_m_InrE if_m_InrE)
    apply (drule InrDs)+
    apply (auto simp: observation_of_def get_set_same get_set_other bind_e_def
        split: option.splits dest!: InrDs)
    done
next
  case (ATunable x)
  show ?thesis using run unfolding ATunable forward.simps actor_defs Let_def
    apply (simp add: pp)
    apply (elim bind_m_InrE if_m_InrE)
    apply (drule InrDs)+
    apply (auto simp: observation_of_def get_set_same get_set_other bind_e_def
        split: option.splits dest!: InrDs)
    done
next
  case (ATunableExp x)
  show ?thesis using run unfolding ATunableExp forward.simps actor_defs Let_def
    apply (simp add: pp)
    apply (elim bind_m_InrE if_m_InrE)
    apply (drule InrDs)+
    apply (auto simp: observation_of_def get_set_same get_set_other bind_e_def
        split: option.splits dest!: InrDs)
    done
next
  case (AStateDependent x)
  show ?thesis using run unfolding AStateDependent forward.simps actor_defs Let_def
    apply (simp add: pp)
    apply (elim bind_m_InrE if_m_InrE)
    apply (drule InrDs)+
    apply (auto simp: observation_of_def get_set_same get_set_other bind_e_def Let_def
        split: option.splits dest!: InrDs)
    done
next
  case (ASquashed x)
  show ?thesis using run unfolding ASquashed forward.simps actor_defs Let_def
    apply (simp add: pp)
    apply (elim bind_m_InrE if_m_InrE)
    apply (drule InrDs)+
    apply (auto simp: observation_of_def get_set_same get_set_other bind_e_def Let_def
        split: option.splits dest!: InrDs)
    done
qed

text \<open>
  C9, as stated, for every actor class: a second call with \<open>predict_proba=True\<close> writes
  a \<open>logprob_predict\<close> equal to the \<open>action_logprobs\<close> of the first call. After the two
  calls on BernoulliActor, \<open>action_logprobs\<close> holds a value and \<open>logprob_predict\<close> holds
  none.
\<close>

theorem BernoulliActor_round_trip_counterexample:
  "fst (forward ref_torch (ABernoulli ex_bernoulli) 0 ex_kw (ex_ws, [])) = Inr ()
   \<and> fst (forward ref_torch (ABernoulli ex_bernoulli) 0 ex_kw_pp
          (snd (forward ref_torch (ABernoulli ex_bernoulli) 0 ex_kw (ex_ws, [])))) = Inr ()
   \<and> get_ws (fst (snd (forward ref_torch (ABernoulli ex_bernoulli) 0 ex_kw_pp
          (snd (forward ref_torch (ABernoulli ex_bernoulli) 0 ex_kw (ex_ws, []))))))
        ''logprob_predict'' 0 = Inl MissingEntry
   \<and> get_ws (fst (snd (forward ref_torch (ABernoulli ex_bernoulli) 0 ex_kw (ex_ws, []))))
        ''action_logprobs'' 0 \<noteq> Inl MissingEntry"
proof -
  have run2: "BernoulliActor_forward ref_torch ex_bernoulli 0 ex_kw_pp
      (snd (BernoulliActor_forward ref_torch ex_bernoulli 0 ex_kw (ex_ws, [])))
     = (Inr (), snd (BernoulliActor_forward ref_torch ex_bernoulli 0 ex_kw (ex_ws, [])))"
    unfolding ex_bernoulli_forward
    unfolding BernoulliActor_forward_def
    by (simp add: monad_defs ref_defs ex_kw_pp_def ex_ws_def ex_obs_def ex_bernoulli_def
      empty_ws_def Let_def lt_t_def tmap_def squeeze_last_def lt_s_def float_t_def float_s_def
      sum_last_def ref_entropy.simps fun_upd_twist)
  have lp: "ex_ws ''logprob_predict'' = []" by (simp add: ex_ws_def empty_ws_def)
  show ?thesis
    apply (simp add: run2)
    apply (simp add: ex_bernoulli_forward get_ws_def lp)
    done
qed

text \<open>
  C9, amended to DiscreteActor, the two TunableVariance actors, StateDependentVariance
  and SquashedGaussian: when a call without \<open>predict_proba\<close> returns and a second call at
  the same \<open>t\<close> with \<open>predict_proba=True\<close> and the same observation returns, the
  \<open>logprob_predict\<close> it wrote is the tensor that the first call wrote to
  \<open>action_logprobs\<close>, which is still there. BernoulliActor has no \<open>predict_proba\<close> mode:
  neither call writes \<open>logprob_predict\<close>, and the second does the same whatever the
  keyword is.
\<close>

theorem rescoring_round_trip:
  assumes run1: "forward T a t kw1 (w, r) = (res1, (w1, r1))"
    and run2: "forward T a t kw2 (w1, r1) = (res2, (w2, r2))"
  shows "(rescores_action a
          \<and> kw_default False (kw_predict_proba kw1) = False
          \<and> kw_predict_proba kw2 = Some True
          \<and> kw_observation kw2 = kw_observation kw1
          \<and> res1 = Inr () \<and> res2 = Inr () \<longrightarrow>
            (\<exists>lp. get_ws w1 ''action_logprobs'' t = Inr lp
               \<and> get_ws w2 ''logprob_predict'' t = Inr lp
               \<and> get_ws w2 ''action_logprobs'' t = Inr lp))
     \<and> ((\<exists>self. a = ABernoulli self) \<longrightarrow>
            w1 ''logprob_predict'' = w ''logprob_predict''
          \<and> w2 ''logprob_predict'' = w1 ''logprob_predict''
          \<and> (\<forall>pp. forward T a t (kw2\<lparr>kw_predict_proba := pp\<rparr>) (w1, r1) = (res2, (w2, r2))))"
proof (intro conjI impI allI)
  assume h: "rescores_action a
          \<and> kw_default False (kw_predict_proba kw1) = False
          \<and> kw_predict_proba kw2 = Some True
          \<and> kw_observation kw2 = kw_observation kw1
          \<and> res1 = Inr () \<and> res2 = Inr ()"
  then have rt: "rescores_action a"
    and pp1: "kw_default False (kw_predict_proba kw1) = False"
    and pp2: "kw_predict_proba kw2 = Some True"
    and ob: "kw_observation kw2 = kw_observation kw1"
    by simp_all
  from h run1 have r1: "forward T a t kw1 (w, r) = (Inr (), (w1, r1))" by simp
  from h run2 have r2: "forward T a t kw2 (w1, r1) = (Inr (), (w2, r2))" by simp
  from forward_scores_new_action [OF rt pp1 r1]
  obtain obs act lp where o1: "observation_of a kw1 w t = Inr obs"
    and a1: "get_ws w1 ''action'' t = Inr act"
    and l1: "action_log_prob T a obs act = Inr lp"
    and g1: "get_ws w1 ''action_logprobs'' t = Inr lp"
    by blast
  have "w1 ''env/env_obs'' = w ''env/env_obs''"
    using preserves_keptD [OF forward_keeps_env_obs r1, of "''env/env_obs''"] by simp
  then have "get_ws w1 ''env/env_obs'' t = get_ws w ''env/env_obs'' t"
    by (simp add: get_ws_def)
  then have o2: "observation_of a kw2 w1 t = Inr obs"
    using o1 ob by (simp add: observation_of_def split: actor.splits option.splits)
  have dp: "declares_predict_proba a" using rt by (rule rescores_declares)
  from forward_rescores [OF dp pp2 r2]
  obtain obs' act' lp' where "observation_of a kw2 w1 t = Inr obs'"
    and "get_ws w1 ''action'' t = Inr act'"
    and "action_log_prob T a obs' act' = Inr lp'"
    and g2: "get_ws w2 ''logprob_predict'' t = Inr lp'"
    by blast
  with o2 a1 l1 have "lp' = lp" by simp
  have "w2 ''action_logprobs'' = w1 ''action_logprobs''"
    using preserves_untouchedD [OF predict_proba_frame [OF dp pp2] r2, of "''action_logprobs''"]
    by simp
  then have "get_ws w2 ''action_logprobs'' t = get_ws w1 ''action_logprobs'' t"
    by (simp add: get_ws_def)
  then have "get_ws w2 ''action_logprobs'' t = Inr lp"
    using g1 by simp
  with g1 g2 \<open>lp' = lp\<close>
  show "\<exists>lp. get_ws w1 ''action_logprobs'' t = Inr lp
               \<and> get_ws w2 ''logprob_predict'' t = Inr lp
               \<and> get_ws w2 ''action_logprobs'' t = Inr lp" by blast
next
  assume "\<exists>self. a = ABernoulli self"
  then obtain self where a: "a = ABernoulli self" by blast
  have k: "\<And>kw s0. preserves (kept {''logprob_predict''} s0) (forward T a t kw)"
    by (simp add: a BernoulliActor_keeps_logprob_predict)
  from preserves_keptD [OF k run1]
  show "w1 ''logprob_predict'' = w ''logprob_predict''" by simp
  from preserves_keptD [OF k run2]
  show "w2 ''logprob_predict'' = w1 ''logprob_predict''" by simp
  fix pp
  show "forward T a t (kw2\<lparr>kw_predict_proba := pp\<rparr>) (w1, r1) = (res2, (w2, r2))"
    using run2 by (simp add: a BernoulliActor_ignores_predict_proba)
qed

lemma ex_discrete_forward_twice:
  "DiscreteActor_forward ref_torch ex_discrete 0 ex_kw_pp
      (snd (DiscreteActor_forward ref_torch ex_discrete 0 ex_kw (ex_ws, [])))
   = (Inr (),
      (ex_ws(''action'' := [\<lparr>shape = [1], data = [In 1]\<rparr>],
        ''action_logprobs'' := [\<lparr>shape = [1], data = [log_s (Fl (exp 1 / (1 + exp 1)))]\<rparr>],
        ''logprob_predict'' := [\<lparr>shape = [1], data = [log_s (Fl (exp 1 / (1 + exp 1)))]\<rparr>]),
       []))"
  unfolding ex_discrete_forward
  unfolding DiscreteActor_forward_def
  by (simp add: monad_defs ex_kw_pp_def ex_ws_def ex_discrete_def
      empty_ws_def Let_def index_rows_ex log_t_def tmap_def)

theorem rescoring_round_trip_witness:
  "rescores_action (ADiscrete ex_discrete)
   \<and> kw_default False (kw_predict_proba ex_kw) = False
   \<and> kw_predict_proba ex_kw_pp = Some True
   \<and> kw_observation ex_kw_pp = kw_observation ex_kw
   \<and> fst (forward ref_torch (ADiscrete ex_discrete) 0 ex_kw (ex_ws, [])) = Inr ()
   \<and> fst (forward ref_torch (ADiscrete ex_discrete) 0 ex_kw_pp
          (snd (forward ref_torch (ADiscrete ex_discrete) 0 ex_kw (ex_ws, [])))) = Inr ()
   \<and> get_ws (fst (snd (forward ref_torch (ADiscrete ex_discrete) 0 ex_kw_pp
          (snd (forward ref_torch (ADiscrete ex_discrete) 0 ex_kw (ex_ws, []))))))
        ''logprob_predict'' 0
     = get_ws (fst (snd (forward ref_torch (ADiscrete ex_discrete) 0 ex_kw (ex_ws, []))))
        ''action_logprobs'' 0
   \<and> fst (snd (forward ref_torch (ABernoulli ex_bernoulli) 0 ex_kw_pp
          (snd (forward ref_torch (ABernoulli ex_bernoulli) 0 ex_kw (ex_ws, [])))))
        ''logprob_predict''
     = ex_ws ''logprob_predict''"
proof -
  let ?s1 = "snd (forward ref_torch (ADiscrete ex_discrete) 0 ex_kw (ex_ws, []))"
  let ?s2 = "snd (forward ref_torch (ADiscrete ex_discrete) 0 ex_kw_pp ?s1)"
  let ?b1 = "forward ref_torch (ABernoulli ex_bernoulli) 0 ex_kw (ex_ws, [])"
  let ?b2 = "forward ref_torch (ABernoulli ex_bernoulli) 0 ex_kw_pp (fst (snd ?b1), snd (snd ?b1))"
  have h1: "rescores_action (ADiscrete ex_discrete)" by simp
  have h2: "kw_default False (kw_predict_proba ex_kw) = False"
    by (simp add: kw_default_def ex_kw_def)
  have h3: "kw_predict_proba ex_kw_pp = Some True" by (simp add: ex_kw_pp_def)
  have h4: "kw_observation ex_kw_pp = kw_observation ex_kw" by (simp add: ex_kw_pp_def ex_kw_def)
  have r1: "fst (forward ref_torch (ADiscrete ex_discrete) 0 ex_kw (ex_ws, [])) = Inr ()"
    by (simp add: ex_discrete_forward)
  have r2: "fst (forward ref_torch (ADiscrete ex_discrete) 0 ex_kw_pp ?s1) = Inr ()"
    by (simp add: ex_discrete_forward_twice)
  have e1: "forward ref_torch (ADiscrete ex_discrete) 0 ex_kw (ex_ws, [])
      = (Inr (), (fst ?s1, snd ?s1))"
    using returned [OF r1] by simp
  have e2: "forward ref_torch (ADiscrete ex_discrete) 0 ex_kw_pp (fst ?s1, snd ?s1)
      = (Inr (), (fst ?s2, snd ?s2))"
    using returned [OF r2] by simp
  from rescoring_round_trip [OF e1 e2] h1 h2 h3 h4
  have d: "get_ws (fst ?s2) ''logprob_predict'' 0 = get_ws (fst ?s1) ''action_logprobs'' 0"
    by auto
  from rescoring_round_trip [OF run_eq [of ?b1] run_eq [of ?b2]]
  have b: "fst (snd ?b2) ''logprob_predict'' = ex_ws ''logprob_predict''"
    by auto
  from h1 h2 h3 h4 r1 r2 d b show ?thesis by simp
qed

text \<open>
  C8 on DiscreteActor: a network whose output is NaN gives NaN probabilities, and the
  greedy call of the evaluation loop (\<open>stochastic=False, predict_proba=False\<close>) returns
  without raising, with NaN written to \<open>action_logprobs\<close>. ProbAgent on the same network
  raises at its assertion, before anything is written.
\<close>

theorem DiscreteActor_writes_nan:
  "any_isnan (softmax (ex_nan_net ex_obs))
   \<and> DiscreteActor_forward ref_torch \<lparr>da_model = ex_nan_net\<rparr> 0 ex_kw (ex_ws, [])
     = (Inr (),
        (ex_ws(''action'' := [\<lparr>shape = [1], data = [In 0]\<rparr>],
           ''action_logprobs'' := [\<lparr>shape = [1], data = [NaN]\<rparr>]), []))
   \<and> ProbAgent_forward ref_torch \<lparr>pa_model = ex_nan_net\<rparr> 0 ex_kw (ex_ws, [])
     = (Inl (AssertionError ''Nan Here''), (ex_ws, []))"
proof -
  have net: "ex_nan_net ex_obs = \<lparr>shape = [1, 2], data = [NaN, NaN]\<rparr>"
    by (simp add: ex_nan_net_def ex_obs_def tmap_def)
  have sm: "softmax \<lparr>shape = [Suc 0, 2], data = [NaN, NaN]\<rparr> = \<lparr>shape = [1, 2], data = [NaN, NaN]\<rparr>"
    by (simp add: softmax_def rows_def softmax_row_def)
  have am: "argmax1 \<lparr>shape = [Suc 0, 2], data = [NaN, NaN]\<rparr> = Inr \<lparr>shape = [1], data = [In 0]\<rparr>"
    by (simp add: argmax1_def rows_def argmax_row_def gt_s_def)
  have ix: "index_rows \<lparr>shape = [Suc 0, 2], data = [NaN, NaN]\<rparr> \<lparr>shape = [Suc 0], data = [In 0]\<rparr>
      = Inr \<lparr>shape = [1], data = [NaN]\<rparr>"
    by (simp add: index_rows_def column_index_def index_of_def binop_def bind_e_def)
  have obs: "get_ws ex_ws ''env/env_obs'' 0 = Inr ex_obs"
    by (simp add: get_ws_def ex_ws_def)
  have emp: "ex_ws ''action'' = []" "ex_ws ''action_logprobs'' = []"
    by (simp_all add: ex_ws_def empty_ws_def)
  have a: "any_isnan (softmax (ex_nan_net ex_obs))"
    by (simp add: net sm any_isnan_def)
  have b: "DiscreteActor_forward ref_torch \<lparr>da_model = ex_nan_net\<rparr> 0 ex_kw (ex_ws, [])
     = (Inr (),
        (ex_ws(''action'' := [\<lparr>shape = [1], data = [In 0]\<rparr>],
           ''action_logprobs'' := [\<lparr>shape = [1], data = [NaN]\<rparr>]), []))"
    unfolding DiscreteActor_forward_def
    by (simp add: bind_m_def return_m_def lift_e_def self_get_def self_set_def set_ws_def
        kw_default_def ex_kw_def obs net sm am ix emp Let_def log_t_def tmap_def log_s_def)
  have c: "ProbAgent_forward ref_torch \<lparr>pa_model = ex_nan_net\<rparr> 0 ex_kw (ex_ws, [])
     = (Inl (AssertionError ''Nan Here''), (ex_ws, []))"
    unfolding ProbAgent_forward_def
    by (simp add: bind_m_def raise_m_def self_get_def obs net sm any_isnan_def Let_def)
  from a b c show ?thesis by blast
qed

subsection \<open>The bootstrap mask\<close>

lemma must_bootstrap_slot:
  assumes sd: "shape done = [2, n]" and st: "shape truncated = [2, n]"
    and wd: "wf_tensor done" and wt: "wf_tensor truncated" and i: "i < n"
  shows "\<exists>mb. run_a2c_must_bootstrap done truncated = Inr mb
      \<and> shape mb = [n]
      \<and> data mb ! i = (\<not> data done ! (n + i) \<or> data truncated ! (n + i))"
proof -
  have ld: "length (data done) = 2 * n" using sd wd by (simp add: wf_tensor_def)
  have lt: "length (data truncated) = 2 * n" using st wt by (simp add: wf_tensor_def)
  have d1: "select0 done 1 = Inr \<lparr>shape = [n], data = take n (drop n (data done))\<rparr>"
    by (simp add: select0_def sd)
  have t1: "select0 truncated 1 = Inr \<lparr>shape = [n], data = take n (drop n (data truncated))\<rparr>"
    by (simp add: select0_def st)
  show ?thesis
    unfolding run_a2c_must_bootstrap_def d1 t1
    using i ld lt
    by (simp add: bind_e_def logical_or_def bitwise_not_def binop_def tmap_def)
qed

text \<open>
  C2: in the three training loops the mask handed to the advantage or TD computation is
  computed by the same expression; for transition tensors of shape \<open>[2, n]\<close> it is a
  tensor of shape \<open>[n]\<close> whose element \<open>i\<close> is \<open>(not done[1][i]) or truncated[1][i]\<close>
  (\<open>x[1][i]\<close> is element \<open>n + i\<close> of the row-major data).
\<close>

theorem must_bootstrap_mask:
  assumes "shape done = [2, n]" and "shape truncated = [2, n]"
    and "wf_tensor done" and "wf_tensor truncated" and "i < n"
  shows "\<exists>mb. run_a2c_must_bootstrap done truncated = Inr mb
      \<and> run_ppo_must_bootstrap done truncated = Inr mb
      \<and> run_fqi_must_bootstrap done truncated = Inr mb
      \<and> shape mb = [n]
      \<and> data mb ! i = (\<not> data done ! (n + i) \<or> data truncated ! (n + i))"
  using must_bootstrap_slot [OF assms]
  by (simp add: run_a2c_must_bootstrap_def run_ppo_must_bootstrap_def run_fqi_must_bootstrap_def)

theorem must_bootstrap_mask_witness:
  "shape ex_done = [2, 3] \<and> shape ex_truncated = [2, 3]
   \<and> wf_tensor ex_done \<and> wf_tensor ex_truncated \<and> (1::nat) < 3
   \<and> run_a2c_must_bootstrap ex_done ex_truncated
       = Inr \<lparr>shape = [3], data = [False, True, True]\<rparr>
   \<and> run_ppo_must_bootstrap ex_done ex_truncated = run_a2c_must_bootstrap ex_done ex_truncated
   \<and> run_fqi_must_bootstrap ex_done ex_truncated = run_a2c_must_bootstrap ex_done ex_truncated"
proof -
  have h: "shape ex_done = [2, 3]" "shape ex_truncated = [2, 3]"
    "wf_tensor ex_done" "wf_tensor ex_truncated" "(1::nat) < 3"
    by (simp_all add: ex_done_def ex_truncated_def wf_tensor_def)
  have v: "run_a2c_must_bootstrap ex_done ex_truncated
       = Inr \<lparr>shape = [3], data = [False, True, True]\<rparr>"
    by (simp add: run_a2c_must_bootstrap_def select0_def ex_done_def ex_truncated_def
        bind_e_def logical_or_def bitwise_not_def binop_def tmap_def)
  from must_bootstrap_mask [OF h] v h show ?thesis by auto
qed

subsection \<open>Generalised advantage estimation\<close>

lemma gae_nth:
  "length V = Suc T \<Longrightarrow> T \<le> length R \<Longrightarrow> T \<le> length M \<Longrightarrow>
   rect N V \<Longrightarrow> rect N R \<Longrightarrow> rect N M \<Longrightarrow>
   length (gae V R M \<gamma> l) = T \<and>
   (\<forall>t<T. length (gae V R M \<gamma> l ! t) = N \<and>
      (\<forall>b<N. gae V R M \<gamma> l ! t ! b =
          td_residual (R ! t ! b) (V ! t ! b) (V ! Suc t ! b) (M ! t ! b) \<gamma>
          + \<gamma> * l * of_bool (M ! t ! b) * (if Suc t < T then gae V R M \<gamma> l ! Suc t ! b else 0)))"
proof (induction T arbitrary: V R M)
  case 0
  then obtain v where "V = [v]" by (cases V) auto
  then show ?case by (cases R; cases M) simp_all
next
  case (Suc T)
  from Suc.prems(1) obtain v0 v1 vs where V: "V = v0 # v1 # vs"
    by (cases V; cases "tl V") auto
  from Suc.prems(2) obtain r0 rs where R: "R = r0 # rs" by (cases R) auto
  from Suc.prems(3) obtain m0 ms where M: "M = m0 # ms" by (cases M) auto
  let ?rest = "gae (v1 # vs) rs ms \<gamma> l"
  let ?deltas = "map (\<lambda>(r, v, v', m). td_residual r v v' m \<gamma>) (zip r0 (zip v0 (zip v1 m0)))"
  have lens: "length v0 = N" "length v1 = N" "length r0 = N" "length m0 = N"
    using Suc.prems(4,5,6) by (simp_all add: rect_def V R M)
  have IH: "length ?rest = T \<and>
   (\<forall>t<T. length (?rest ! t) = N \<and>
      (\<forall>b<N. ?rest ! t ! b =
          td_residual (rs ! t ! b) ((v1 # vs) ! t ! b) ((v1 # vs) ! Suc t ! b) (ms ! t ! b) \<gamma>
          + \<gamma> * l * of_bool (ms ! t ! b) * (if Suc t < T then ?rest ! Suc t ! b else 0)))"
    using Suc.prems by (intro Suc.IH) (simp_all add: V R M rect_def)
  have unfold: "gae V R M \<gamma> l =
      (case ?rest of [] \<Rightarrow> ?deltas
        | a1 # _ \<Rightarrow> map (\<lambda>(d, m, a). d + \<gamma> * l * of_bool m * a) (zip ?deltas (zip m0 a1))) # ?rest"
    by (simp add: V R M Let_def)
  have dl: "length ?deltas = N" using lens by simp
  have dn: "\<And>b. b < N \<Longrightarrow> ?deltas ! b = td_residual (r0 ! b) (v0 ! b) (v1 ! b) (m0 ! b) \<gamma>"
    using lens by simp
  show ?case
  proof (intro conjI allI impI)
    show "length (gae V R M \<gamma> l) = Suc T" using IH by (simp add: unfold)
  next
    fix t assume t: "t < Suc T"
    show "length (gae V R M \<gamma> l ! t) = N"
    proof (cases t)
      case 0
      show ?thesis
      proof (cases ?rest)
        case Nil then show ?thesis using dl 0 by (simp add: unfold)
      next
        case (Cons a1 as)
        with IH have "0 < T" by auto
        with IH Cons have "length a1 = N" by (metis nth_Cons_0)
        then show ?thesis using dl lens 0 Cons by (simp add: unfold)
      qed
    next
      case (Suc t')
      then show ?thesis using IH t by (simp add: unfold)
    qed
  next
    fix t b assume t: "t < Suc T" and b: "b < N"
    show "gae V R M \<gamma> l ! t ! b =
          td_residual (R ! t ! b) (V ! t ! b) (V ! Suc t ! b) (M ! t ! b) \<gamma>
          + \<gamma> * l * of_bool (M ! t ! b) * (if Suc t < Suc T then gae V R M \<gamma> l ! Suc t ! b else 0)"
    proof (cases t)
      case 0
      show ?thesis
      proof (cases ?rest)
        case Nil
        with IH have "T = 0" by auto
        then show ?thesis using Nil 0 dn [OF b] by (simp add: unfold V R M)
      next
        case (Cons a1 as)
        with IH have T: "0 < T" by auto
        with IH Cons have "length a1 = N" by (metis nth_Cons_0)
        then show ?thesis using Cons 0 dn [OF b] dl lens b T
          by (simp add: unfold V R M)
      qed
    next
      case (Suc t')
      with t have "t' < T" by simp
      with IH b have "?rest ! t' ! b =
          td_residual (rs ! t' ! b) ((v1 # vs) ! t' ! b) ((v1 # vs) ! Suc t' ! b) (ms ! t' ! b) \<gamma>
          + \<gamma> * l * of_bool (ms ! t' ! b) * (if Suc t' < T then ?rest ! Suc t' ! b else 0)"
        by blast
      moreover have g1: "gae V R M \<gamma> l ! t = ?rest ! t'" using Suc by (simp add: unfold)
      moreover have g2: "gae V R M \<gamma> l ! Suc t = ?rest ! Suc t'" using Suc by (simp add: unfold)
      moreover have idx: "R ! t = rs ! t'" "V ! t = (v1 # vs) ! t'"
        "V ! Suc t = (v1 # vs) ! Suc t'" "M ! t = ms ! t'"
        using Suc by (simp_all add: V R M)
      ultimately show ?thesis using Suc by simp
    qed
  qed
qed

text \<open>
  C1: for value rows \<open>V[0..T]\<close> and at least \<open>T\<close> reward and mask rows over \<open>N\<close> slots, the
  advantages returned by \<open>compute_advantages_loss\<close> (and by \<open>compute_advantage_loss\<close>) have
  \<open>T\<close> rows and satisfy, at every step \<open>t < T\<close> and slot \<open>b\<close>,
  \<open>A_t = \<delta>_t + \<gamma> \<lambda> must_bootstrap_t A_{t+1}\<close> with
  \<open>\<delta>_t = r_t + \<gamma> V_{t+1} must_bootstrap_t - V_t\<close> (nothing is added at the last step);
  for \<open>\<lambda> = 0\<close> the advantage is \<open>\<delta>_t\<close>, and where \<open>must_bootstrap_t\<close> is false it is
  \<open>r_t - V_t\<close>, in which \<open>V_{t+1}\<close> does not occur.
\<close>

theorem gae_advantage_recursion:
  assumes "length V = Suc T" and "T \<le> length R" and "T \<le> length M"
    and "rect N V" and "rect N R" and "rect N M"
    and "t < T" and "b < N"
  shows "let A = snd (compute_advantages_loss cfg R M V);
             \<gamma> = cfg_discount_factor cfg;
             l = cfg_gae cfg;
             mb = of_bool (M ! t ! b);
             \<delta> = R ! t ! b + \<gamma> * (V ! Suc t ! b) * mb - V ! t ! b
         in snd (compute_advantage_loss cfg R M V) = A
          \<and> length A = T
          \<and> A ! t ! b = \<delta> + \<gamma> * l * mb * (if Suc t < T then A ! Suc t ! b else 0)
          \<and> (l = 0 \<longrightarrow> A ! t ! b = \<delta>)
          \<and> (\<not> M ! t ! b \<longrightarrow> A ! t ! b = R ! t ! b - V ! t ! b)"
proof -
  let ?A = "gae V R M (cfg_discount_factor cfg) (cfg_gae cfg)"
  have A: "snd (compute_advantages_loss cfg R M V) = ?A"
    "snd (compute_advantage_loss cfg R M V) = ?A"
    by (simp_all add: compute_advantages_loss_def compute_advantage_loss_def Let_def)
  from gae_nth [OF assms(1-6), of "cfg_discount_factor cfg" "cfg_gae cfg"] assms(7,8)
  have len: "length ?A = T"
    and rec: "?A ! t ! b =
          td_residual (R ! t ! b) (V ! t ! b) (V ! Suc t ! b) (M ! t ! b) (cfg_discount_factor cfg)
          + cfg_discount_factor cfg * cfg_gae cfg * of_bool (M ! t ! b)
            * (if Suc t < T then ?A ! Suc t ! b else 0)"
    by blast+
  show ?thesis
    unfolding A Let_def using len rec by (auto simp: td_residual_def)
qed

lemma ex_advantages:
  "snd (compute_advantages_loss ex_cfg ex_reward ex_must_bootstrap ex_v_value)
     = [[1 + 9 / 10 * 3 - 2 + 9 / 10 * 2, 1 + 9 / 10 * 3 - 2 + 9 / 10 * (1 + 9 / 10 * 4 - 3)],
        [2, 1 + 9 / 10 * 4 - 3]]"
  by (simp add: compute_advantages_loss_def ex_cfg_def ex_reward_def ex_must_bootstrap_def
      ex_v_value_def td_residual_def Let_def)

theorem gae_advantage_recursion_witness:
  "length ex_v_value = Suc 2 \<and> 2 \<le> length ex_reward \<and> 2 \<le> length ex_must_bootstrap
   \<and> rect 2 ex_v_value \<and> rect 2 ex_reward \<and> rect 2 ex_must_bootstrap
   \<and> (1::nat) < 2 \<and> (0::nat) < 2
   \<and> \<not> ex_must_bootstrap ! 1 ! 0
   \<and> snd (compute_advantages_loss ex_cfg ex_reward ex_must_bootstrap ex_v_value) ! 1 ! 0
       = ex_reward ! 1 ! 0 - ex_v_value ! 1 ! 0
   \<and> snd (compute_advantages_loss ex_cfg ex_reward ex_must_bootstrap ex_v_value) ! 1 ! 0 = 2"
proof -
  have h: "length ex_v_value = Suc 2" "2 \<le> length ex_reward" "2 \<le> length ex_must_bootstrap"
    "rect 2 ex_v_value" "rect 2 ex_reward" "rect 2 ex_must_bootstrap" "(1::nat) < 2" "(0::nat) < 2"
    by (simp_all add: ex_v_value_def ex_reward_def ex_must_bootstrap_def rect_def)
  have m: "\<not> ex_must_bootstrap ! 1 ! 0" by (simp add: ex_must_bootstrap_def)
  from gae_advantage_recursion [OF h, of ex_cfg] m
  have "snd (compute_advantages_loss ex_cfg ex_reward ex_must_bootstrap ex_v_value) ! 1 ! 0
       = ex_reward ! 1 ! 0 - ex_v_value ! 1 ! 0"
    by (simp add: Let_def)
  moreover have "snd (compute_advantages_loss ex_cfg ex_reward ex_must_bootstrap ex_v_value) ! 1 ! 0 = 2"
    by (simp add: ex_advantages)
  ultimately show ?thesis using h m by simp
qed

subsection \<open>Continuing a rollout\<close>

lemma earlier_refl: "earlier t s s"
  by (simp add: earlier_def)

lemma earlier_trans:
  assumes "earlier t s s'" and "earlier t s' s''"
  shows "earlier t s s''"
  unfolding earlier_def
proof (intro allI impI)
  fix c i
  assume a: "i < t \<and> i < length (fst s c)"
  with assms(1) have b: "i < length (fst s' c) \<and> fst s' c ! i = fst s c ! i"
    unfolding earlier_def by blast
  with a assms(2) have "i < length (fst s'' c) \<and> fst s'' c ! i = fst s' c ! i"
    unfolding earlier_def by blast
  with b show "i < length (fst s'' c) \<and> fst s'' c ! i = fst s c ! i" by simp
qed

lemma earlier_mono: "t \<le> t' \<Longrightarrow> earlier t' s s' \<Longrightarrow> earlier t s s'"
  unfolding earlier_def by (meson less_le_trans)

lemma local_at_mono: "t \<le> t' \<Longrightarrow> local_at t' m \<Longrightarrow> local_at t m"
  unfolding local_at_def using earlier_mono by blast

lemma local_at_bind:
  assumes "local_at t m" and "\<And>x. local_at t (f x)"
  shows "local_at t (bind_m m f)"
  unfolding local_at_def
proof
  fix s
  show "earlier t s (snd (bind_m m f s))"
  proof -
    obtain res s' where Pair: "m s = (res, s')" by (cases "m s") auto
    have "earlier t s (snd (m s))" using assms(1) unfolding local_at_def by blast
    then have e1: "earlier t s s'" using Pair by simp
    show ?thesis
    proof (cases res)
      case (Inl e) then show ?thesis using Pair e1 by (simp add: bind_m_def)
    next
      case (Inr x)
      have "earlier t s' (snd (f x s'))" using assms(2) unfolding local_at_def by blast
      with e1 have "earlier t s (snd (f x s'))" by (rule earlier_trans)
      then show ?thesis using Pair Inr by (simp add: bind_m_def)
    qed
  qed
qed

lemma local_at_return: "local_at t (return_m x)"
  by (simp add: local_at_def return_m_def earlier_refl)

lemma local_at_raise: "local_at t (raise_m e)"
  by (simp add: local_at_def raise_m_def earlier_refl)

lemma local_at_lift_e: "local_at t (lift_e x)"
  by (simp add: local_at_def lift_e_def earlier_refl)

lemma local_at_self_get: "local_at t (self_get c t')"
  by (simp add: local_at_def self_get_def earlier_refl)

lemma local_at_construct: "local_at t (construct T d)"
  by (simp add: local_at_def construct_def return_m_def raise_m_def earlier_refl)

lemma local_at_sample: "local_at t (sample_m T d)"
  unfolding local_at_def
proof
  fix s :: "'a state"
  obtain x r' where "sample T d (snd s) = (x, r')" by (cases "sample T d (snd s)") auto
  then show "earlier t s (snd (sample_m T d s))"
    by (simp add: sample_m_def earlier_def)
qed

lemma set_ws_earlier:
  assumes "set_ws w c t' v = Inr w'" and "t \<le> t'"
  shows "earlier t (w, r) (w', r)"
proof -
  have len: "t' \<le> length (w c)" using assms(1) by (auto simp: set_ws_def split: if_splits)
  have w': "w' = w(c := (if t' = length (w c) then w c @ [v] else (w c)[t' := v]))"
    using assms(1) by (auto simp: set_ws_def split: if_splits)
  show ?thesis
    unfolding earlier_def
  proof (intro allI impI)
    fix c0 i
    assume "i < t \<and> i < length (fst (w, r) c0)"
    then have i: "i < t" "i < length (w c0)" by simp_all
    show "i < length (fst (w', r) c0) \<and> fst (w', r) c0 ! i = fst (w, r) c0 ! i"
    proof (cases "c0 = c")
      case False then show ?thesis using i by (simp add: w')
    next
      case True
      have "i \<noteq> t'" using i assms(2) by simp
      then show ?thesis using i True by (simp add: w' nth_append)
    qed
  qed
qed

lemma local_at_self_set: "t \<le> t' \<Longrightarrow> local_at t (self_set c t' v)"
  unfolding local_at_def
proof
  fix s :: "'a state"
  assume le: "t \<le> t'"
  show "earlier t s (snd (self_set c t' v s))"
  proof (cases "set_ws (fst s) c t' v")
    case (Inl e) then show ?thesis by (simp add: self_set_def earlier_refl)
  next
    case (Inr w')
    from set_ws_earlier [OF Inr le, of "snd s"] show ?thesis
      using Inr by (simp add: self_set_def)
  qed
qed

lemma local_at_if:
  "local_at t a \<Longrightarrow> local_at t b \<Longrightarrow> local_at t (if c then a else b)"
  by simp

lemma local_at_case_option:
  "local_at t a \<Longrightarrow> (\<And>x. local_at t (b x)) \<Longrightarrow> local_at t (case_option a b c)"
  by (cases c) simp_all

lemmas local_intros =
  local_at_bind local_at_return local_at_raise local_at_lift_e local_at_self_get
  local_at_construct local_at_sample local_at_self_set local_at_if local_at_case_option

lemma forward_time_local: "time_local (forward T a)"
  unfolding time_local_def
proof (intro allI)
  fix t kw
  show "local_at t (forward T a t kw)"
  proof (cases a)
    case (ABernoulli x)
    show ?thesis unfolding ABernoulli forward.simps actor_defs Let_def
      by (auto intro!: local_intros)
  next
    case (ADiscrete x)
    show ?thesis unfolding ADiscrete forward.simps actor_defs Let_def
      by (auto intro!: local_intros split: option.splits)
  next
    case (ATunable x)
    show ?thesis unfolding ATunable forward.simps actor_defs Let_def
      by (auto intro!: local_intros)
  next
    case (ATunableExp x)
    show ?thesis unfolding ATunableExp forward.simps actor_defs Let_def
      by (auto intro!: local_intros)
  next
    case (AStateDependent x)
    show ?thesis unfolding AStateDependent forward.simps actor_defs Let_def
      by (auto intro!: local_intros)
  next
    case (AConstant x)
    show ?thesis unfolding AConstant forward.simps actor_defs Let_def
      by (auto intro!: local_intros)
  next
    case (ASquashed x)
    show ?thesis unfolding ASquashed forward.simps actor_defs Let_def
      by (auto intro!: local_intros)
  qed
qed

lemma ex_env_time_local: "time_local ex_env"
  by (simp add: time_local_def ex_env_def local_at_self_set)

lemma Agents_time_local:
  "list_all time_local as \<Longrightarrow> time_local (Agents as)"
proof (induction as)
  case Nil
  show ?case by (simp add: time_local_def local_at_return)
next
  case (Cons a as)
  then have "time_local a" "time_local (Agents as)" by simp_all
  then show ?case by (auto simp: time_local_def intro!: local_at_bind)
qed

lemma TemporalAgent_local:
  "time_local agent \<Longrightarrow> local_at t (TemporalAgent agent t n kw)"
proof (induction n arbitrary: t)
  case 0
  show ?case by (simp add: local_at_return)
next
  case (Suc n)
  have "local_at t (TemporalAgent agent (Suc t) n kw)"
    using Suc.IH [OF Suc.prems, of "Suc t"] by (auto intro: local_at_mono [of t "Suc t"])
  moreover have "local_at t (agent t kw)" using Suc.prems by (simp add: time_local_def)
  ultimately show ?case by (auto intro!: local_at_bind)
qed

lemma copy_n_last_steps_get:
  assumes "n \<le> length (w c)" and "i < n"
  shows "get_ws (copy_n_last_steps n w) c i = Inr (w c ! (length (w c) - n + i))"
    and "length (copy_n_last_steps n w c) = n"
  using assms by (simp_all add: get_ws_def copy_n_last_steps_def)

lemma continuation_step0:
  assumes tl: "time_local agent" and ne: "w c \<noteq> []"
    and run: "TemporalAgent agent 1 n kw (copy_n_last_steps 1 (zero_grad w), r) = (res, (w', r'))"
  shows "get_ws w' c 0 = Inr (last (w c))"
proof -
  let ?w1 = "copy_n_last_steps 1 (zero_grad w)"
  have l1: "?w1 c = [last (w c)]"
    using ne by (cases "w c" rule: rev_cases) (simp_all add: copy_n_last_steps_def zero_grad_def)
  from TemporalAgent_local [OF tl, of 1 n kw]
  have "earlier 1 (?w1, r) (snd (TemporalAgent agent 1 n kw (?w1, r)))"
    by (simp add: local_at_def)
  with run have "earlier 1 (?w1, r) (w', r')" by simp
  then have "0 < length (w' c) \<and> w' c ! 0 = ?w1 c ! 0"
    using l1 by (auto simp: earlier_def)
  then show ?thesis using l1 by (simp add: get_ws_def)
qed

text \<open>
  C3: when a channel holds at least \<open>n\<close> time steps, reading index \<open>i < n\<close> after
  \<open>copy_n_last_steps(n)\<close> returns the tensor that was at index \<open>i\<close> of its last \<open>n\<close> steps,
  and the channel then holds \<open>n\<close> steps; and for a training agent that writes at no step
  earlier than the one it is called at, the rollout of an epoch after the first
  (\<open>zero_grad\<close>, \<open>copy_n_last_steps(1)\<close>, the temporal agent from \<open>t = 1\<close> for
  \<open>n_steps - 1\<close> steps), in the A2C loop and in the FQI loop, ends with the last step of
  the previous segment at step 0 of the channel, whether the rollout returns or raises.
\<close>

theorem copy_n_last_steps_continuation:
  assumes "n \<le> length (w c)" and "i < n"
    and "time_local tr_agent" and "0 < epoch"
    and "run_a2c_rollout tr_agent n_steps epoch (w, r) = (res, (w', r'))"
    and "run_fqi_rollout tr_agent n_steps epoch (w, r) = (res2, (w2, r2))"
  shows "get_ws (copy_n_last_steps n w) c i = Inr (w c ! (length (w c) - n + i))
     \<and> get_ws w c (length (w c) - n + i) = Inr (w c ! (length (w c) - n + i))
     \<and> length (copy_n_last_steps n w c) = n
     \<and> get_ws w' c 0 = Inr (last (w c))
     \<and> get_ws w2 c 0 = Inr (last (w c))"
proof -
  have ne: "w c \<noteq> []" using assms(1,2) by auto
  have a: "TemporalAgent tr_agent 1 (n_steps - 1) a2c_train_kwargs
             (copy_n_last_steps 1 (zero_grad w), r) = (res, (w', r'))"
    using assms(4,5) by (simp add: run_a2c_rollout_def Let_def)
  have b: "TemporalAgent tr_agent 1 (n_steps - 1) fqi_train_kwargs
             (copy_n_last_steps 1 (zero_grad w), r) = (res2, (w2, r2))"
    using assms(4,6) by (simp add: run_fqi_rollout_def Let_def)
  have "get_ws w c (length (w c) - n + i) = Inr (w c ! (length (w c) - n + i))"
    using assms(1,2) by (simp add: get_ws_def)
  then show ?thesis
    using copy_n_last_steps_get [of n w c i] assms(1,2)
      continuation_step0 [OF assms(3) ne a] continuation_step0 [OF assms(3) ne b]
    by simp
qed

lemma ex_tr_agent_time_local: "time_local ex_tr_agent"
  unfolding ex_tr_agent_def
  by (intro Agents_time_local) (simp add: ex_env_time_local forward_time_local)

lemma ex_copy:
  "copy_n_last_steps (Suc 0) (zero_grad ex_ws_two) = empty_ws
     (''env/env_obs'' := [ex_obs2],
      ''entropy'' := [\<lparr>shape = [1], data = [Fl 0]\<rparr>],
      ''action'' := [\<lparr>shape = [1], data = [In 0]\<rparr>],
      ''action_logprobs'' := [\<lparr>shape = [1], data = [Fl (- 1)]\<rparr>])"
  by (rule ext) (simp add: copy_n_last_steps_def zero_grad_def ex_ws_two_def empty_ws_def)

lemma index_rows_ex0:
  "index_rows (softmax ex_obs) \<lparr>shape = [Suc 0], data = [In 0]\<rparr>
     = Inr \<lparr>shape = [1], data = [Fl (1 / (1 + exp 1))]\<rparr>"
  by (simp add: softmax_ex_obs index_rows_def column_index_def index_of_def binop_def bind_e_def)

lemma shape_ex: "shape ex_obs = [Suc 0, 2]" "shape ex_obs2 = [Suc 0, 2]"
  by (simp_all add: ex_obs_def ex_obs2_def)

lemma shape_softmax: "shape (softmax x) = shape x"
  by (simp add: softmax_def)

lemma ex_rollout_returns:
  "fst (run_a2c_rollout ex_tr_agent 2 1 (ex_ws_two, ex_draws)) = Inr ()"
  unfolding run_a2c_rollout_def Let_def
  apply (simp add: ex_copy numeral_2_eq_2 ex_tr_agent_def DiscreteActor_forward_def)
  apply (simp add: monad_defs ex_env_def a2c_train_kwargs_def empty_ws_def shape_ex ex_discrete_def
      Let_def ref_torch_def ref_valid_args_def ref_sample_def ex_draws_def shape_softmax
      index_rows_ex0 log_t_def tmap_def)
  done

theorem copy_n_last_steps_continuation_witness:
  "(1::nat) \<le> length (ex_ws_two ''env/env_obs'') \<and> (0::nat) < 1
   \<and> time_local ex_tr_agent \<and> (0::nat) < 1
   \<and> get_ws (copy_n_last_steps 1 ex_ws_two) ''env/env_obs'' 0 = Inr ex_obs2
   \<and> fst (run_a2c_rollout ex_tr_agent 2 1 (ex_ws_two, ex_draws)) = Inr ()
   \<and> get_ws (fst (snd (run_a2c_rollout ex_tr_agent 2 1 (ex_ws_two, ex_draws))))
        ''env/env_obs'' 0 = Inr ex_obs2
   \<and> get_ws (fst (snd (run_fqi_rollout ex_tr_agent 2 1 (ex_ws_two, ex_draws))))
        ''env/env_obs'' 0 = Inr ex_obs2"
proof -
  have h1: "(1::nat) \<le> length (ex_ws_two ''env/env_obs'')" by (simp add: ex_ws_two_def)
  have h2: "(0::nat) < 1" by simp
  have l: "last (ex_ws_two ''env/env_obs'') = ex_obs2"
    "ex_ws_two ''env/env_obs'' ! (length (ex_ws_two ''env/env_obs'') - 1 + 0) = ex_obs2"
    by (simp_all add: ex_ws_two_def)
  from copy_n_last_steps_continuation [OF h1 h2 ex_tr_agent_time_local h2
      run_eq [of "run_a2c_rollout ex_tr_agent 2 1 (ex_ws_two, ex_draws)"]
      run_eq [of "run_fqi_rollout ex_tr_agent 2 1 (ex_ws_two, ex_draws)"]]
  show ?thesis
    using h1 ex_tr_agent_time_local ex_rollout_returns unfolding l by simp
qed

subsection \<open>The evaluation rollout\<close>



lemma set_ws_append:
  "set_ws w c (length (w c)) v = Inr w' \<Longrightarrow> w' = w(c := w c @ [v])"
  by (auto simp: set_ws_def split: if_splits)























end
